theory Spec2Isabelle
  imports Main
begin

section \<open>Package ibc: errors and channel-creation options\<close>

text \<open>
  Go strings and byte slices are sequences of bytes; both are modelled as \<open>string\<close>
  (a list of 8-bit characters). A Go \<open>error\<close> is a value of the datatype below,
  and a function returning \<open>error\<close> returns \<open>error option\<close>, with \<open>None\<close> for
  \<open>nil\<close>. \<open>Errorf msg\<close> is \<open>fmt.Errorf\<close> without a wrapped error,
  \<open>Wrapf prefix e\<close> is \<open>fmt.Errorf(prefix + ": %w", e)\<close>, and \<open>External msg\<close> is an
  error produced by a library or by the container runtime.
\<close>

datatype error =
    ErrInvalidPort
  | ErrInvalidChannelOrdering
  | Canceled
  | DeadlineExceeded
  | Errorf string
  | Wrapf string error
  | External string

text \<open>\<open>type Order int\<close> with the constants \<open>Invalid\<close>, \<open>Ordered\<close>, \<open>Unordered\<close>
  numbered by \<open>iota\<close>. Every integer is a value of the type.\<close>

type_synonym Order = int

definition Invalid :: Order where
  "Invalid = 0"

definition Ordered :: Order where
  "Ordered = 1"

definition Unordered :: Order where
  "Unordered = 2"

record CreateChannelOptions =
  SourcePortName :: string
  DestPortName :: string
  Order :: Order
  Version :: string

definition DefaultChannelOpts :: CreateChannelOptions where
  "DefaultChannelOpts =
     \<lparr>SourcePortName = ''transfer'',
      DestPortName = ''transfer'',
      Order = Unordered,
      Version = ''ics20-1''\<rparr>"

definition Order_String :: "Order \<Rightarrow> string" where
  "Order_String ord =
     (if ord = Unordered then ''unordered''
      else if ord = Ordered then ''ordered''
      else ''invalid'')"

definition Order_Validate :: "Order \<Rightarrow> error option" where
  "Order_Validate ord =
     (if ord = Ordered \<or> ord = Unordered then None
      else Some ErrInvalidChannelOrdering)"

text \<open>
  \<open>CreateChannelOptions.Validate\<close>. The port-identifier check
  \<open>host.PortIdentifierValidator\<close> belongs to the ibc-go library, not to this
  repository; it is the parameter \<open>PortIdentifierValidator\<close>. The \<open>switch\<close> takes
  the first case whose condition holds.
\<close>

definition Validate :: "(string \<Rightarrow> error option) \<Rightarrow> CreateChannelOptions \<Rightarrow> error option" where
  "Validate PortIdentifierValidator opts =
     (if PortIdentifierValidator (SourcePortName opts) \<noteq> None then Some ErrInvalidPort
      else if PortIdentifierValidator (DestPortName opts) \<noteq> None then Some ErrInvalidPort
      else if Version opts = [] then Some (Errorf ''invalid channel version'')
      else if Order_Validate (Order opts) \<noteq> None then Some ErrInvalidChannelOrdering
      else None)"

text \<open>
  The validator of ibc-go (package 24-host), as its source documents it: an identifier
  is refused when it is blank, contains the separator \<open>/\<close>, has fewer than 2 or more
  than 128 bytes, or has a byte outside the letters, the digits and
  \<open>. _ + - # [ ] < >\<close>. It instantiates the parameter of \<open>Validate\<close> where a
  concrete validator is needed.
\<close>

definition IsValidID :: "string \<Rightarrow> bool" where
  "IsValidID ident =
     (ident \<noteq> [] \<and>
      list_all (\<lambda>ch. ch \<in> set (''abcdefghijklmnopqrstuvwxyz'' @ ''ABCDEFGHIJKLMNOPQRSTUVWXYZ'' @
                                 ''0123456789'' @ ''._+-#[]<>'')) ident)"

definition defaultIdentifierValidator :: "string \<Rightarrow> nat \<Rightarrow> nat \<Rightarrow> error option" where
  "defaultIdentifierValidator ident lo hi =
     (if list_all (\<lambda>ch. ch \<in> set [CHR '' '', CHR 0x09, CHR 0x0A, CHR 0x0B, CHR 0x0C, CHR 0x0D]) ident
        then Some (External ''identifier cannot be blank'')
      else if CHR ''/'' \<in> set ident then Some (External ''identifier cannot contain separator'')
      else if length ident < lo \<or> length ident > hi then Some (External ''identifier has invalid length'')
      else if \<not> IsValidID ident then Some (External ''identifier must contain only alphanumeric or allowed characters'')
      else None)"

definition host_PortIdentifierValidator :: "string \<Rightarrow> error option" where
  "host_PortIdentifierValidator ident = defaultIdentifierValidator ident 2 128"

section \<open>Package relayer: the data of a DockerRelayer\<close>

text \<open>
  A \<open>time.Time\<close> is an instant, counted in nanoseconds from the Unix epoch, so
  \<open>time.Unix(0, 0)\<close> is \<open>0\<close> and \<open>UTC()\<close> leaves the instant as it is.
\<close>

type_synonym time = int

definition time_Unix :: "int \<Rightarrow> int \<Rightarrow> time" where
  "time_Unix sec nsec = sec * 1000000000 + nsec"

definition UTC :: "time \<Rightarrow> time" where
  "UTC t = t"

definition RFC3339Nano :: string where
  "RFC3339Nano = ''2006-01-02T15:04:05.999999999Z07:00''"

record RelayerWallet =
  Mnemonic :: string
  Address :: string

text \<open>The zero value \<open>ibc.RelayerWallet{}\<close>.\<close>

definition zero_RelayerWallet :: RelayerWallet where
  "zero_RelayerWallet = \<lparr>Mnemonic = [], Address = []\<rparr>"

record DockerImage =
  Repository :: string
  Image_Version :: string

text \<open>
  The methods of the interface \<open>RelayerCommander\<close> that the modelled functions call.
  A method whose name a method of \<open>DockerRelayer\<close> also has carries the prefix
  \<open>c_\<close> (the field \<open>c\<close> of the relayer holds the commander). \<open>ConfigContent\<close> and
  \<open>ParseAddKeyOutput\<close> return Go's pair of a value and an error. Of the struct
  \<open>ibc.ChainConfig\<close>, whose declaration is not among the files, the record keeps the
  field the relayer reads.
\<close>

record ChainConfig =
  ChainID :: string

record RelayerCommander =
  c_Name :: string
  DefaultContainerImage :: string
  DefaultContainerVersion :: string
  DockerUser :: string
  ConfigContent :: "ChainConfig \<Rightarrow> string \<Rightarrow> string \<Rightarrow> string \<Rightarrow> string \<times> error option"
  ParseAddKeyOutput :: "string \<Rightarrow> string \<Rightarrow> RelayerWallet \<times> error option"
  ParseRestoreKeyOutput :: "string \<Rightarrow> string \<Rightarrow> string"
  Init :: "string \<Rightarrow> string list"
  c_AddChainConfiguration :: "string \<Rightarrow> string \<Rightarrow> string list"
  c_AddKey :: "string \<Rightarrow> string \<Rightarrow> string \<Rightarrow> string list"
  c_RestoreKey :: "string \<Rightarrow> string \<Rightarrow> string \<Rightarrow> string \<Rightarrow> string list"
  c_StartRelayer :: "string \<Rightarrow> string \<Rightarrow> string list"

text \<open>
  The struct \<open>DockerRelayer\<close>, without its logger and its Docker client: what the
  client answers is given by the worlds below. \<open>customImage\<close> is a pointer that may be
  nil, and \<open>wallets\<close> is a Go map.
\<close>

record DockerRelayer =
  c :: RelayerCommander
  networkID :: string
  volumeName :: string
  testName :: string
  customImage :: "DockerImage option"
  pullImage :: bool
  containerID :: string
  wallets :: "string \<rightharpoonup> RelayerWallet"

text \<open>
  Constants and functions of the repository's packages \<open>dockerutil\<close> and \<open>ibc\<close> whose
  source is not among the files. The modelled functions take them as a parameter.
\<close>

record dockerutil =
  CleanupLabel :: string
  SanitizeContainerName :: "string \<Rightarrow> string"
  CondenseHostName :: "string \<Rightarrow> string"
  GetRootUserString :: string
  Ref :: "DockerImage \<Rightarrow> string"

definition containerImage :: "DockerRelayer \<Rightarrow> DockerImage" where
  "containerImage r =
     (case customImage r of
        Some img \<Rightarrow> img
      | None \<Rightarrow> \<lparr>Repository = DefaultContainerImage (c r),
                  Image_Version = DefaultContainerVersion (c r)\<rparr>)"

definition Name :: "dockerutil \<Rightarrow> DockerRelayer \<Rightarrow> string" where
  "Name du r = c_Name (c r) @ ''-'' @ SanitizeContainerName du (testName r)"

definition HomeDir :: "DockerRelayer \<Rightarrow> string" where
  "HomeDir r = ''/var/relayer-'' @ c_Name (c r)"

definition Bind :: "DockerRelayer \<Rightarrow> string list" where
  "Bind r = [volumeName r @ '':'' @ HomeDir r]"

definition HostName :: "dockerutil \<Rightarrow> DockerRelayer \<Rightarrow> string \<Rightarrow> string" where
  "HostName du r pathName = CondenseHostName du (c_Name (c r) @ ''-'' @ pathName)"

section \<open>Exec and the execution reporter\<close>

text \<open>
  One call of \<open>TrackRelayerExec\<close>, with the method's parameters as fields. A modelled
  function returns the list of the calls it made on the reporter, in order, whatever
  the reporter does with them.
\<close>

record ExecReport =
  containerName :: string
  command :: "string list"
  stdout :: string
  stderr :: string
  exitCode :: int
  startedAt :: time
  finishedAt :: time
  err :: "error option"

record ContainerExecResult =
  Err :: "error option"
  ExitCode :: int
  Stdout :: string
  Stderr :: string

record ContainerOptions =
  Env :: "string list"
  Binds :: "string list"

text \<open>The job that \<open>dockerutil.NewImage\<close> returns, as the arguments it was made from.\<close>

record dockerutil_Image =
  job_networkID :: string
  job_testName :: string
  job_repository :: string
  job_tag :: string

text \<open>
  What one call of \<open>Exec\<close> meets: the clock at its two readings, and what
  \<open>job.Run\<close> (package \<open>dockerutil\<close>) returns for a job, a command and options.
\<close>

record Exec_world =
  Now_before_Run :: time
  job_Run :: "dockerutil_Image \<Rightarrow> string list \<Rightarrow> ContainerOptions \<Rightarrow> ContainerExecResult"
  Now_at_return :: time

definition Exec ::
  "dockerutil \<Rightarrow> DockerRelayer \<Rightarrow> Exec_world \<Rightarrow> string list \<Rightarrow> string list \<Rightarrow>
   ContainerExecResult \<times> ExecReport list" where
  "Exec du r w cmd env =
     (let job = \<lparr>job_networkID = networkID r, job_testName = testName r,
                 job_repository = Repository (containerImage r),
                 job_tag = Image_Version (containerImage r)\<rparr>;
          opts = \<lparr>Env = env, Binds = Bind r\<rparr>;
          startedAt = Now_before_Run w;
          res = job_Run w job cmd opts
      in (res,
          [\<lparr>containerName = Name du r,
            command = cmd,
            stdout = Stdout res, stderr = Stderr res,
            exitCode = ExitCode res,
            startedAt = startedAt, finishedAt = Now_at_return w,
            err = Err res\<rparr>]))"

section \<open>Wallets: AddKey, RestoreKey, GetWallet\<close>

text \<open>
  \<open>AddKey\<close> returns Go's pair of a wallet and an error, the relayer after the call
  and the reporter calls made. \<open>nil\<close> for the environment is the empty list.
\<close>

definition AddKey ::
  "dockerutil \<Rightarrow> DockerRelayer \<Rightarrow> Exec_world \<Rightarrow> string \<Rightarrow> string \<Rightarrow>
   (RelayerWallet \<times> error option) \<times> DockerRelayer \<times> ExecReport list" where
  "AddKey du r w chainID keyName =
     (let cmd = c_AddKey (c r) chainID keyName (HomeDir r);
          (res, reports) = Exec du r w cmd []
      in case Err res of
           Some e \<Rightarrow> ((zero_RelayerWallet, Some e), r, reports)
         | None \<Rightarrow>
             (case ParseAddKeyOutput (c r) (Stdout res) (Stderr res) of
                (wallet, Some e) \<Rightarrow> ((zero_RelayerWallet, Some e), r, reports)
              | (wallet, None) \<Rightarrow>
                  ((wallet, None), r\<lparr>wallets := (wallets r)(chainID \<mapsto> wallet)\<rparr>, reports)))"

definition GetWallet :: "DockerRelayer \<Rightarrow> string \<Rightarrow> RelayerWallet \<times> bool" where
  "GetWallet r chainID =
     (case wallets r chainID of
        Some wallet \<Rightarrow> (wallet, True)
      | None \<Rightarrow> (zero_RelayerWallet, False))"

definition RestoreKey ::
  "dockerutil \<Rightarrow> DockerRelayer \<Rightarrow> Exec_world \<Rightarrow> string \<Rightarrow> string \<Rightarrow> string \<Rightarrow>
   error option \<times> DockerRelayer \<times> ExecReport list" where
  "RestoreKey du r w chainID keyName mnemonic =
     (let cmd = c_RestoreKey (c r) chainID keyName mnemonic (HomeDir r);
          (res, reports) = Exec du r w cmd []
      in case Err res of
           Some e \<Rightarrow> (Some e, r, reports)
         | None \<Rightarrow>
             (None,
              r\<lparr>wallets := (wallets r)(chainID \<mapsto>
                   \<lparr>Mnemonic = mnemonic,
                    Address = ParseRestoreKeyOutput (c r) (Stdout res) (Stderr res)\<rparr>)\<rparr>,
              reports))"

section \<open>The tar archive of a configuration file\<close>

text \<open>
  \<open>archive/tar\<close> is Go's standard library. Its writer is modelled by the members it
  has written (the header given to \<open>WriteHeader\<close>, its type flag resolved, and the
  bytes given to \<open>Write\<close>) and by its documented contract. \<open>WriteHeader\<close> fails
  when the file before is short of its \<open>Size\<close> or when the format cannot encode the
  header; it resolves the legacy flag \<open>TypeRegA\<close> (the zero value) to \<open>TypeDir\<close>
  for a name that ends in a slash and to \<open>TypeReg\<close> otherwise, and a member of a
  header-only type such as a directory takes no bytes. \<open>Write\<close> fails with
  \<open>ErrWriteTooLong\<close> when it is given more than the bytes still due, and
  \<open>Close\<close> fails when the last file is short. Which headers the format encodes is
  the library's matter: the parameter \<open>encodable\<close>.
\<close>

datatype tar_Format = FormatUnknown | FormatUSTAR | FormatPAX | FormatGNU

datatype tar_Typeflag =
  TypeReg | TypeRegA | TypeLink | TypeSymlink | TypeChar | TypeBlock | TypeDir | TypeFifo

record Header =
  Typeflag :: tar_Typeflag
  Header_Name :: string
  Size :: int
  Mode :: int
  Uname :: string
  ModTime :: time
  Format :: tar_Format

fun isHeaderOnlyType :: "tar_Typeflag \<Rightarrow> bool" where
  "isHeaderOnlyType TypeLink = True"
| "isHeaderOnlyType TypeSymlink = True"
| "isHeaderOnlyType TypeChar = True"
| "isHeaderOnlyType TypeBlock = True"
| "isHeaderOnlyType TypeDir = True"
| "isHeaderOnlyType TypeFifo = True"
| "isHeaderOnlyType flag = False"

definition HasSuffix :: "string \<Rightarrow> string \<Rightarrow> bool" where
  "HasSuffix s suffix =
     (length suffix \<le> length s \<and> drop (length s - length suffix) s = suffix)"

type_synonym archive = "(Header \<times> string) list"

record tar_Writer =
  written :: archive
  due :: int

definition tar_NewWriter :: tar_Writer where
  "tar_NewWriter = \<lparr>written = [], due = 0\<rparr>"

definition tar_WriteHeader ::
  "(Header \<Rightarrow> error option) \<Rightarrow> tar_Writer \<Rightarrow> Header \<Rightarrow> tar_Writer \<times> error option" where
  "tar_WriteHeader encodable tw hdr =
     (if due tw > 0 then (tw, Some (External ''archive/tar: missed writing bytes''))
      else
        (let hdr1 = (if Typeflag hdr = TypeRegA
                     then hdr\<lparr>Typeflag := (if HasSuffix (Header_Name hdr) ''/'' then TypeDir else TypeReg)\<rparr>
                     else hdr)
         in case encodable hdr1 of
              Some e \<Rightarrow> (tw, Some e)
            | None \<Rightarrow>
                (\<lparr>written = written tw @ [(hdr1, [])],
                  due = (if isHeaderOnlyType (Typeflag hdr1) then 0 else Size hdr1)\<rparr>,
                 None)))"

fun append_to_last :: "archive \<Rightarrow> string \<Rightarrow> archive" where
  "append_to_last [] b = []"
| "append_to_last [(hdr, bytes)] b = [(hdr, bytes @ b)]"
| "append_to_last (m # ms) b = m # append_to_last ms b"

definition tar_Write :: "tar_Writer \<Rightarrow> string \<Rightarrow> tar_Writer \<times> error option" where
  "tar_Write tw b =
     (if int (length b) > due tw
      then (\<lparr>written = append_to_last (written tw) (take (nat (due tw)) b), due = 0\<rparr>,
            Some (External ''archive/tar: write too long''))
      else (\<lparr>written = append_to_last (written tw) b, due = due tw - int (length b)\<rparr>, None))"

definition tar_Close :: "tar_Writer \<Rightarrow> tar_Writer \<times> error option" where
  "tar_Close tw =
     (if due tw > 0 then (tw, Some (External ''archive/tar: missed writing bytes''))
      else (tw, None))"

text \<open>The octal literal \<open>0600\<close>.\<close>

definition mode_0600 :: int where
  "mode_0600 = 6 * 8 ^ 2 + 0 * 8 + 0"

text \<open>
  \<open>generateConfigTar\<close> returns the buffer the writer wrote into (here the members it
  holds) or the wrapped error of the step that failed. The header literal sets no type
  flag, which leaves the zero value \<open>TypeRegA\<close>. \<open>now\<close> is the reading of
  \<open>time.Now()\<close>.
\<close>

definition generateConfigTar ::
  "(Header \<Rightarrow> error option) \<Rightarrow> time \<Rightarrow> DockerRelayer \<Rightarrow> string \<Rightarrow> string \<Rightarrow> error + archive" where
  "generateConfigTar encodable now r relativeConfigPath content =
     (let tw = tar_NewWriter in
      case tar_WriteHeader encodable tw
             \<lparr>Typeflag = TypeRegA,
              Header_Name = relativeConfigPath,
              Size = int (length content),
              Mode = mode_0600,
              Uname = DockerUser (c r),
              ModTime = now,
              Format = FormatPAX\<rparr> of
        (tw1, Some e) \<Rightarrow> Inl (Wrapf ''writing config file to tar'' e)
      | (tw1, None) \<Rightarrow>
          (case tar_Write tw1 content of
             (tw2, Some e) \<Rightarrow> Inl (Wrapf ''writing config content to tar'' e)
           | (tw2, None) \<Rightarrow>
               (case tar_Close tw2 of
                  (tw3, Some e) \<Rightarrow> Inl (Wrapf ''closing tar writer'' e)
                | (tw3, None) \<Rightarrow> Inr (written tw3))))"

section \<open>Calls on the Docker client\<close>

text \<open>
  The configurations given to \<open>ContainerCreate\<close>, with the fields the relayer sets.
  \<open>Labels\<close> is a map literal with one entry, kept as a list of pairs. A modelled
  function returns the list of the calls it made on the client (and on the helpers of
  \<open>dockerutil\<close> that call the client for it), in order.
\<close>

record Config =
  Image :: string
  Config_Entrypoint :: "string list"
  Config_Cmd :: "string list"
  Hostname :: string
  Config_User :: string
  Labels :: "(string \<times> string) list"

record HostConfig =
  HostConfig_Binds :: "string list"
  AutoRemove :: bool

datatype docker_call =
    ImagePull string
  | VolumeCreate "(string \<times> string) list"
  | SetVolumeOwner string string string
  | ContainerCreate Config HostConfig "string list option" string
  | CopyToContainer string string archive
  | ContainerStart string
  | StartContainer string
  | ContainerWait string
  | ContainerRemove string bool bool
  | ContainerStop string
  | ContainerLogs string
  | ContainerInspect string

section \<open>One-off containers\<close>

record oneOffOptions =
  ContainerNameDetail :: string
  Entrypoint :: "string list"
  Cmd :: "string list"
  User :: string
  TarContent :: "archive option"

text \<open>
  What one call of \<open>runOneOff\<close> meets: the random suffix, the client's answers, and
  the three channels of the \<open>select\<close> statement at the moment it proceeds:
  whether \<open>ctx.Done()\<close> is closed (and what \<open>ctx.Err()\<close> then is), and the value
  waiting on \<open>errCh\<close> and on \<open>waitCh\<close>, if any. A wait response holds the message of
  its \<open>Error\<close>, if it has one.
\<close>

record runOneOff_world =
  RandLowerCaseLetterString :: string
  ContainerCreate_result :: "error + string"
  CopyToContainer_result :: "error option"
  ContainerStart_result :: "error option"
  ctx_Done :: bool
  ctx_Err :: error
  errCh :: "error option option"
  waitCh :: "string option option"
  ContainerRemove_result :: "error option"

text \<open>
  The case a \<open>select\<close> statement takes is one whose channel is ready; Go chooses
  among several ready cases at random. \<open>select_case w k\<close>: the statement may take
  case \<open>k\<close>.
\<close>

datatype select_choice = from_ctx_Done | from_errCh "error option" | from_waitCh "string option"

inductive select_case :: "runOneOff_world \<Rightarrow> select_choice \<Rightarrow> bool" where
  take_ctx_Done: "ctx_Done w \<Longrightarrow> select_case w from_ctx_Done"
| take_errCh: "errCh w = Some e \<Longrightarrow> select_case w (from_errCh e)"
| take_waitCh: "waitCh w = Some res \<Longrightarrow> select_case w (from_waitCh res)"

code_pred select_case .

text \<open>
  \<open>runOneOff\<close>, given the case \<open>k\<close> that its \<open>select\<close> statement takes. The
  deferred \<open>ContainerRemove\<close> runs on every return after the container was created;
  its error is logged and does not change the result.
\<close>

definition runOneOff ::
  "dockerutil \<Rightarrow> DockerRelayer \<Rightarrow> runOneOff_world \<Rightarrow> select_choice \<Rightarrow> oneOffOptions \<Rightarrow>
   error option \<times> docker_call list" where
  "runOneOff du r w k opts =
     (let containerName = Name du r @ ''-'' @ ContainerNameDetail opts @ ''-'' @ RandLowerCaseLetterString w;
          create = ContainerCreate
                     \<lparr>Image = Ref du (containerImage r),
                      Config_Entrypoint = Entrypoint opts,
                      Config_Cmd = Cmd opts,
                      Hostname = HostName du r containerName,
                      Config_User = User opts,
                      Labels = [(CleanupLabel du, testName r)]\<rparr>
                     \<lparr>HostConfig_Binds = Bind r, AutoRemove = False\<rparr>
                     None
                     containerName
      in case ContainerCreate_result w of
           Inl e \<Rightarrow> (Some (Wrapf (''creating container for '' @ ContainerNameDetail opts) e), [create])
         | Inr ccID \<Rightarrow>
             (let remove = ContainerRemove ccID True False;
                  copy = (case TarContent opts of
                            Some tar \<Rightarrow> [CopyToContainer ccID (HomeDir r) tar]
                          | None \<Rightarrow> []);
                  copy_err = (case TarContent opts of
                                Some tar \<Rightarrow> CopyToContainer_result w
                              | None \<Rightarrow> None)
              in case copy_err of
                   Some e \<Rightarrow>
                     (Some (Wrapf (''copying tar to one-off '' @ ContainerNameDetail opts @ '' container'') e),
                      [create] @ copy @ [remove])
                 | None \<Rightarrow>
                     (case ContainerStart_result w of
                        Some e \<Rightarrow>
                          (Some (Wrapf (''starting one-off '' @ ContainerNameDetail opts @ '' container'') e),
                           [create] @ copy @ [ContainerStart ccID, remove])
                      | None \<Rightarrow>
                          (let calls = [create] @ copy @ [ContainerStart ccID, ContainerWait ccID, remove]
                           in case k of
                                from_ctx_Done \<Rightarrow> (Some (ctx_Err w), calls)
                              | from_errCh e \<Rightarrow> (e, calls)
                              | from_waitCh None \<Rightarrow> (None, calls)
                              | from_waitCh (Some msg) \<Rightarrow>
                                  (Some (Errorf (''waiting for one-off '' @ ContainerNameDetail opts @
                                                 '' container: '' @ msg)), calls)))))"

definition untarIntoNodeHome ::
  "dockerutil \<Rightarrow> DockerRelayer \<Rightarrow> runOneOff_world \<Rightarrow> select_choice \<Rightarrow> archive \<Rightarrow>
   error option \<times> docker_call list" where
  "untarIntoNodeHome du r w k tar =
     runOneOff du r w k
       \<lparr>ContainerNameDetail = ''untar-chown'',
        Entrypoint = [],
        Cmd = [''chown'', ''-R'', DockerUser (c r), HomeDir r],
        User = GetRootUserString du,
        TarContent = Some tar\<rparr>"

text \<open>
  What one call of \<open>AddChainConfiguration\<close> meets: the tar writer's check of the
  header and the clock at the moment the header is made, \<open>path.Join\<close> of Go's
  standard library, the world and the \<open>select\<close> case of the one-off container, and
  the world of the final \<open>Exec\<close>. It returns its error, the reporter calls and the
  client calls made.
\<close>

record AddChainConfiguration_world =
  tar_encodable :: "Header \<Rightarrow> error option"
  tar_Now :: time
  path_Join :: "string \<Rightarrow> string \<Rightarrow> string"
  untar_world :: runOneOff_world
  untar_select :: select_choice
  config_Exec_world :: Exec_world

definition AddChainConfiguration ::
  "dockerutil \<Rightarrow> DockerRelayer \<Rightarrow> AddChainConfiguration_world \<Rightarrow> ChainConfig \<Rightarrow>
   string \<Rightarrow> string \<Rightarrow> string \<Rightarrow> error option \<times> ExecReport list \<times> docker_call list" where
  "AddChainConfiguration du r w chainConfig keyName rpcAddr grpcAddr =
     (let chainConfigFile = ChainID chainConfig @ ''.config'';
          chainConfigContainerFilePath = path_Join w (HomeDir r) chainConfigFile
      in case ConfigContent (c r) chainConfig keyName rpcAddr grpcAddr of
           (configContent, Some e) \<Rightarrow> (Some (Wrapf ''failed to generate config content'' e), [], [])
         | (configContent, None) \<Rightarrow>
             (case generateConfigTar (tar_encodable w) (tar_Now w) r chainConfigFile configContent of
                Inl e \<Rightarrow> (Some (Wrapf ''generating tar for configuration'' e), [], [])
              | Inr tar \<Rightarrow>
                  (case untarIntoNodeHome du r (untar_world w) (untar_select w) tar of
                     (Some e, calls) \<Rightarrow> (Some e, [], calls)
                   | (None, calls) \<Rightarrow>
                       (let cmd = c_AddChainConfiguration (c r) chainConfigContainerFilePath (HomeDir r);
                            (res, reports) = Exec du r (config_Exec_world w) cmd []
                        in (Err res, reports, calls)))))"

section \<open>The long-running container\<close>

record createNodeContainer_world =
  node_ContainerCreate_result :: "error + string"
  StartContainer_result :: "error option"

text \<open>
  \<open>createNodeContainer\<close> returns its error, the relayer after the call (its
  \<open>containerID\<close> set once the container exists) and the calls made. The networking
  configuration is given by the network ids of its endpoints.
\<close>

definition createNodeContainer ::
  "dockerutil \<Rightarrow> DockerRelayer \<Rightarrow> createNodeContainer_world \<Rightarrow> string \<Rightarrow>
   error option \<times> DockerRelayer \<times> docker_call list" where
  "createNodeContainer du r w pathName =
     (let img = containerImage r;
          containerName = c_Name (c r) @ ''-'' @ pathName;
          cmd = c_StartRelayer (c r) pathName (HomeDir r);
          create = ContainerCreate
                     \<lparr>Image = Ref du img,
                      Config_Entrypoint = [],
                      Config_Cmd = cmd,
                      Hostname = HostName du r pathName,
                      Config_User = DockerUser (c r),
                      Labels = [(CleanupLabel du, testName r)]\<rparr>
                     \<lparr>HostConfig_Binds = Bind r, AutoRemove = False\<rparr>
                     (Some [networkID r])
                     containerName
      in case node_ContainerCreate_result w of
           Inl e \<Rightarrow> (Some e, r, [create])
         | Inr ccID \<Rightarrow>
             (StartContainer_result w, r\<lparr>containerID := ccID\<rparr>, [create, StartContainer ccID]))"

definition StartRelayer ::
  "dockerutil \<Rightarrow> DockerRelayer \<Rightarrow> createNodeContainer_world \<Rightarrow> string \<Rightarrow>
   error option \<times> DockerRelayer \<times> docker_call list" where
  "StartRelayer du r w pathName = createNodeContainer du r w pathName"

section \<open>NewDockerRelayer\<close>

text \<open>The options the constructor's type switch knows, and any other option.\<close>

datatype RelayerOption =
    RelayerOptionDockerImage DockerImage
  | RelayerOptionImagePull bool
  | OtherRelayerOption

fun apply_RelayerOption :: "DockerRelayer \<Rightarrow> RelayerOption \<Rightarrow> DockerRelayer" where
  "apply_RelayerOption r (RelayerOptionDockerImage img) = r\<lparr>customImage := Some img\<rparr>"
| "apply_RelayerOption r (RelayerOptionImagePull pull) = r\<lparr>pullImage := pull\<rparr>"
| "apply_RelayerOption r OtherRelayerOption = r"

record NewDockerRelayer_world =
  ImagePull_result :: "error option"
  VolumeCreate_result :: "error + string"
  SetVolumeOwner_result :: "error option"
  Init_Exec_world :: Exec_world

definition pullContainerImageIfNecessary ::
  "dockerutil \<Rightarrow> DockerRelayer \<Rightarrow> NewDockerRelayer_world \<Rightarrow> DockerImage \<Rightarrow>
   error option \<times> docker_call list" where
  "pullContainerImageIfNecessary du r w img =
     (if \<not> pullImage r then (None, [])
      else (ImagePull_result w, [ImagePull (Ref du img)]))"

text \<open>
  \<open>NewDockerRelayer\<close> returns the relayer or the error, and the calls made. The
  initialisation command runs through \<open>Exec\<close> with the no-op reporter, so no reporter
  call leaves the constructor.
\<close>

definition NewDockerRelayer ::
  "dockerutil \<Rightarrow> NewDockerRelayer_world \<Rightarrow> string \<Rightarrow> string \<Rightarrow> RelayerCommander \<Rightarrow>
   RelayerOption list \<Rightarrow> (error + DockerRelayer) \<times> docker_call list" where
  "NewDockerRelayer du w tName netID cmdr options =
     (let r = foldl apply_RelayerOption
                \<lparr>c = cmdr, networkID = netID, volumeName = [], testName = tName,
                 customImage = None, pullImage = True, containerID = [],
                 wallets = Map.empty\<rparr> options;
          img = containerImage r;
          (pull_err, pull_calls) = pullContainerImageIfNecessary du r w img
      in case pull_err of
           Some e \<Rightarrow> (Inl (Wrapf (''pulling container image '' @ Ref du img) e), pull_calls)
         | None \<Rightarrow>
             (let create = VolumeCreate [(CleanupLabel du, tName)]
              in case VolumeCreate_result w of
                   Inl e \<Rightarrow> (Inl (Wrapf ''creating volume'' e), pull_calls @ [create])
                 | Inr vName \<Rightarrow>
                     (let r1 = r\<lparr>volumeName := vName\<rparr>;
                          calls = pull_calls @ [create, SetVolumeOwner vName (Ref du img) tName]
                      in case SetVolumeOwner_result w of
                           Some e \<Rightarrow> (Inl (Wrapf ''set volume owner'' e), calls)
                         | None \<Rightarrow>
                             (let init = Init (c r1) (HomeDir r1)
                              in if length init > 0
                                 then (case Err (fst (Exec du r1 (Init_Exec_world w) init [])) of
                                         Some e \<Rightarrow> (Inl e, calls)
                                       | None \<Rightarrow> (Inr r1, calls))
                                 else (Inr r1, calls)))))"

section \<open>StopRelayer\<close>

record ContainerState =
  StartedAt :: string
  FinishedAt :: string
  State_ExitCode :: int

record ContainerJSON =
  ContainerJSON_Name :: string
  Args :: "string list"
  State :: ContainerState

text \<open>
  What one call of \<open>StopRelayer\<close> meets: the client's answers, the demultiplexer
  \<open>stdcopy.StdCopy\<close> (from the stream to the bytes of the two outputs), Go's
  \<open>time.Parse\<close>, whose first argument is the layout and whose second is the value to
  parse, and the reading of \<open>time.Now()\<close>.
\<close>

record StopRelayer_world =
  ContainerStop_result :: "error option"
  ContainerLogs_result :: "error + string"
  StdCopy :: "string \<Rightarrow> error + string \<times> string"
  ContainerInspect_result :: "error + ContainerJSON"
  time_Parse :: "string \<Rightarrow> string \<Rightarrow> error + time"
  time_Now :: time
  Stop_ContainerRemove_result :: "error option"

definition stopContainer :: "DockerRelayer \<Rightarrow> StopRelayer_world \<Rightarrow> error option \<times> docker_call list" where
  "stopContainer r w = (ContainerStop_result w, [ContainerStop (containerID r)])"

text \<open>
  \<open>StopRelayer\<close> returns its error, the reporter calls and the client calls made.
  Each of the two timestamps is parsed with the recorded string in the place of the
  layout and \<open>RFC3339Nano\<close> in the place of the value, as the source has them.
\<close>

definition StopRelayer ::
  "DockerRelayer \<Rightarrow> StopRelayer_world \<Rightarrow> error option \<times> ExecReport list \<times> docker_call list" where
  "StopRelayer r w =
     (case stopContainer r w of
        (Some e, calls0) \<Rightarrow> (Some e, [], calls0)
      | (None, calls0) \<Rightarrow>
          (let calls1 = calls0 @ [ContainerLogs (containerID r)]
           in case ContainerLogs_result w of
                Inl e \<Rightarrow> (Some (Wrapf ''StopRelayer: retrieving ContainerLogs'' e), [], calls1)
              | Inr rc \<Rightarrow>
                  (case StdCopy w rc of
                     Inl e \<Rightarrow> (Some (Wrapf ''StopRelayer: demuxing logs'' e), [], calls1)
                   | Inr (out, errout) \<Rightarrow>
                       (let calls2 = calls1 @ [ContainerInspect (containerID r)]
                        in case ContainerInspect_result w of
                             Inl e \<Rightarrow> (Some (Wrapf ''StopRelayer: inspecting container'' e), [], calls2)
                           | Inr cj \<Rightarrow>
                               (let started =
                                      (case time_Parse w (StartedAt (State cj)) RFC3339Nano of
                                         Inl e \<Rightarrow> time_Unix 0 0
                                       | Inr t \<Rightarrow> t);
                                    finished =
                                      (case time_Parse w (FinishedAt (State cj)) RFC3339Nano of
                                         Inl e \<Rightarrow> UTC (time_Now w)
                                       | Inr t \<Rightarrow> t)
                                in (Stop_ContainerRemove_result w,
                                    [\<lparr>containerName = ContainerJSON_Name cj,
                                      command = Args cj,
                                      stdout = out, stderr = errout,
                                      exitCode = State_ExitCode (State cj),
                                      startedAt = started,
                                      finishedAt = finished,
                                      err = None\<rparr>],
                                    calls2 @ [ContainerRemove (containerID r) False True]))))))"

text \<open>
  \<open>timestamps_in_order w cj\<close>: what the theorems on the times of a report assume of
  the clock and of the container runtime. The clock does not read a time before the
  Unix epoch, and each of the two recorded timestamps of the inspected container, where
  \<open>StopRelayer\<close> gets a time from it, lies between the epoch and the present, the
  start not after the finish.
\<close>

definition timestamps_in_order :: "StopRelayer_world \<Rightarrow> ContainerJSON \<Rightarrow> bool" where
  "timestamps_in_order w cj =
     (time_Unix 0 0 \<le> time_Now w \<and>
      (case time_Parse w (StartedAt (State cj)) RFC3339Nano of
         Inl e \<Rightarrow> True
       | Inr s \<Rightarrow>
           time_Unix 0 0 \<le> s \<and> s \<le> time_Now w \<and>
           (case time_Parse w (FinishedAt (State cj)) RFC3339Nano of
              Inl e \<Rightarrow> True
            | Inr f \<Rightarrow> s \<le> f)) \<and>
      (case time_Parse w (FinishedAt (State cj)) RFC3339Nano of
         Inl e \<Rightarrow> True
       | Inr f \<Rightarrow> time_Unix 0 0 \<le> f \<and> f \<le> time_Now w))"

section \<open>Histories of a relayer\<close>

text \<open>
  The methods that change a relayer are \<open>AddKey\<close>, \<open>RestoreKey\<close> (the wallets) and
  \<open>StartRelayer\<close> (the container id). A history is a list of such calls, each with the
  world it meets; \<open>after_calls\<close> is the relayer after a history.
\<close>

datatype method_call =
    call_AddKey Exec_world string string
  | call_RestoreKey Exec_world string string string
  | call_StartRelayer createNodeContainer_world string

fun after_call :: "dockerutil \<Rightarrow> DockerRelayer \<Rightarrow> method_call \<Rightarrow> DockerRelayer" where
  "after_call du r (call_AddKey w chainID keyName) = fst (snd (AddKey du r w chainID keyName))"
| "after_call du r (call_RestoreKey w chainID keyName mnemonic) =
     fst (snd (RestoreKey du r w chainID keyName mnemonic))"
| "after_call du r (call_StartRelayer w pathName) = fst (snd (StartRelayer du r w pathName))"

fun after_calls :: "dockerutil \<Rightarrow> DockerRelayer \<Rightarrow> method_call list \<Rightarrow> DockerRelayer" where
  "after_calls du r [] = r"
| "after_calls du r (call # calls) = after_calls du (after_call du r call) calls"

text \<open>\<open>key_stored du r call chainID\<close>: the call, made on \<open>r\<close>, is an \<open>AddKey\<close> or a
  \<open>RestoreKey\<close> for \<open>chainID\<close> that returns without error.\<close>

fun key_stored :: "dockerutil \<Rightarrow> DockerRelayer \<Rightarrow> method_call \<Rightarrow> string \<Rightarrow> bool" where
  "key_stored du r (call_AddKey w cid keyName) chainID =
     (cid = chainID \<and> snd (fst (AddKey du r w cid keyName)) = None)"
| "key_stored du r (call_RestoreKey w cid keyName mnemonic) chainID =
     (cid = chainID \<and> fst (RestoreKey du r w cid keyName mnemonic) = None)"
| "key_stored du r (call_StartRelayer w pathName) chainID = False"

fun no_key_stored :: "dockerutil \<Rightarrow> DockerRelayer \<Rightarrow> method_call list \<Rightarrow> string \<Rightarrow> bool" where
  "no_key_stored du r [] chainID = True"
| "no_key_stored du r (call # calls) chainID =
     (\<not> key_stored du r call chainID \<and> no_key_stored du (after_call du r call) calls chainID)"

text \<open>\<open>cleanup_labelled du tName call\<close>: a call that creates a volume or a container
  gives it the cleanup label with the value \<open>tName\<close>.\<close>

fun cleanup_labelled :: "dockerutil \<Rightarrow> string \<Rightarrow> docker_call \<Rightarrow> bool" where
  "cleanup_labelled du tName (VolumeCreate labels) = (map_of labels (CleanupLabel du) = Some tName)"
| "cleanup_labelled du tName (ContainerCreate cfg hostCfg netCfg cName) =
     (map_of (Labels cfg) (CleanupLabel du) = Some tName)"
| "cleanup_labelled du tName call = True"

fun creates_resource :: "docker_call \<Rightarrow> bool" where
  "creates_resource (VolumeCreate labels) = True"
| "creates_resource (ContainerCreate cfg hostCfg netCfg cName) = True"
| "creates_resource call = False"

section \<open>Example worlds\<close>

text \<open>
  A commander, the helpers of \<open>dockerutil\<close> and worlds at which the theorems below are
  instantiated.
\<close>

definition example_dockerutil :: dockerutil where
  "example_dockerutil =
     \<lparr>CleanupLabel = ''ibc-test'',
      SanitizeContainerName = (\<lambda>name. name),
      CondenseHostName = (\<lambda>name. take 32 name),
      GetRootUserString = ''0:0'',
      Ref = (\<lambda>img. Repository img @ '':'' @ Image_Version img)\<rparr>"

definition example_commander :: RelayerCommander where
  "example_commander =
     \<lparr>c_Name = ''rly'',
      DefaultContainerImage = ''ghcr.io/cosmos/relayer'',
      DefaultContainerVersion = ''v2.0.0'',
      DockerUser = ''100:1000'',
      ConfigContent = (\<lambda>cfg keyName rpcAddr grpcAddr. (''chain-id: '' @ ChainID cfg, None)),
      ParseAddKeyOutput = (\<lambda>out errout.
         if out = [] then (zero_RelayerWallet, Some (External ''no address in the output''))
         else (\<lparr>Mnemonic = errout, Address = out\<rparr>, None)),
      ParseRestoreKeyOutput = (\<lambda>out errout. out),
      Init = (\<lambda>home. [''rly'', ''config'', ''init'', ''--home'', home]),
      c_AddChainConfiguration = (\<lambda>containerFilePath home.
         [''rly'', ''chains'', ''add'', ''-f'', containerFilePath, ''--home'', home]),
      c_AddKey = (\<lambda>chainID keyName home. [''rly'', ''keys'', ''add'', chainID, keyName, ''--home'', home]),
      c_RestoreKey = (\<lambda>chainID keyName mnemonic home.
         [''rly'', ''keys'', ''restore'', chainID, keyName, mnemonic, ''--home'', home]),
      c_StartRelayer = (\<lambda>pathName home. [''rly'', ''start'', pathName, ''--home'', home])\<rparr>"

definition example_Exec_world :: "ContainerExecResult \<Rightarrow> Exec_world" where
  "example_Exec_world res =
     \<lparr>Now_before_Run = 1000, job_Run = (\<lambda>job cmd opts. res), Now_at_return = 2000\<rparr>"

definition run_ok :: "string \<Rightarrow> ContainerExecResult" where
  "run_ok out = \<lparr>Err = None, ExitCode = 0, Stdout = out, Stderr = []\<rparr>"

definition run_failed :: ContainerExecResult where
  "run_failed = \<lparr>Err = Some (External ''image not found''), ExitCode = -1, Stdout = [], Stderr = []\<rparr>"

definition example_NewDockerRelayer_world :: NewDockerRelayer_world where
  "example_NewDockerRelayer_world =
     \<lparr>ImagePull_result = None,
      VolumeCreate_result = Inr ''vol-1'',
      SetVolumeOwner_result = None,
      Init_Exec_world = example_Exec_world (run_ok [])\<rparr>"

definition example_relayer :: DockerRelayer where
  "example_relayer =
     \<lparr>c = example_commander, networkID = ''net-1'', volumeName = ''vol-1'',
      testName = ''TestRelayer'', customImage = None, pullImage = True,
      containerID = [], wallets = Map.empty\<rparr>"

definition example_archive :: archive where
  "example_archive =
     [(\<lparr>Typeflag = TypeReg, Header_Name = ''chain-a.config'', Size = 2, Mode = mode_0600,
        Uname = ''100:1000'', ModTime = 1000, Format = FormatPAX\<rparr>, ''{}'')]"

definition example_oneOffOptions :: oneOffOptions where
  "example_oneOffOptions =
     \<lparr>ContainerNameDetail = ''untar-chown'',
      Entrypoint = [],
      Cmd = [''chown'', ''-R'', ''100:1000'', ''/var/relayer-rly''],
      User = ''0:0'',
      TarContent = Some example_archive\<rparr>"

text \<open>A world of \<open>runOneOff\<close> in which the container is created and started, with the
  given answer to the copy and the given state of the three channels.\<close>

definition example_runOneOff_world ::
  "error option \<Rightarrow> bool \<Rightarrow> error option option \<Rightarrow> string option option \<Rightarrow> runOneOff_world" where
  "example_runOneOff_world copy_err done err_ch wait_ch =
     \<lparr>RandLowerCaseLetterString = ''abcde'',
      ContainerCreate_result = Inr ''c1'',
      CopyToContainer_result = copy_err,
      ContainerStart_result = None,
      ctx_Done = done,
      ctx_Err = Canceled,
      errCh = err_ch,
      waitCh = wait_ch,
      ContainerRemove_result = None\<rparr>"

definition example_createNodeContainer_world :: createNodeContainer_world where
  "example_createNodeContainer_world =
     \<lparr>node_ContainerCreate_result = Inr ''c2'', StartContainer_result = None\<rparr>"

text \<open>
  A world of \<open>StopRelayer\<close> for a container that ran from 10:00:00 to 11:00:00 UTC on
  1 September 2022 and is inspected five seconds later. \<open>example_time_Parse\<close> gives
  the answers of Go's \<open>time.Parse\<close> on the calls that matter here: with the layout
  \<open>RFC3339Nano\<close> each of the two recorded timestamps parses to its instant; with a
  recorded timestamp in the place of the layout and the text of \<open>RFC3339Nano\<close> in the
  place of the value, parsing fails (the layout's leading \<open>2\<close> and \<open>02\<close> read the
  value's \<open>20\<close> and \<open>06\<close> as days, and its next \<open>2\<close> meets \<open>-\<close>).
\<close>

definition example_time_Parse :: "string \<Rightarrow> string \<Rightarrow> error + time" where
  "example_time_Parse layout val =
     (if layout = RFC3339Nano \<and> val = ''2022-09-01T10:00:00Z'' then Inr 1662026400000000000
      else if layout = RFC3339Nano \<and> val = ''2022-09-01T11:00:00Z'' then Inr 1662030000000000000
      else Inl (External ''parsing time: cannot parse''))"

definition example_ContainerJSON :: ContainerJSON where
  "example_ContainerJSON =
     \<lparr>ContainerJSON_Name = ''/rly-path'',
      Args = [''start'', ''path'', ''--home'', ''/var/relayer-rly''],
      State = \<lparr>StartedAt = ''2022-09-01T10:00:00Z'',
               FinishedAt = ''2022-09-01T11:00:00Z'',
               State_ExitCode = 0\<rparr>\<rparr>"

definition example_StopRelayer_world :: StopRelayer_world where
  "example_StopRelayer_world =
     \<lparr>ContainerStop_result = None,
      ContainerLogs_result = Inr ''relaying'',
      StdCopy = (\<lambda>stream. Inr (stream, [])),
      ContainerInspect_result = Inr example_ContainerJSON,
      time_Parse = example_time_Parse,
      time_Now = 1662030005000000000,
      Stop_ContainerRemove_result = None\<rparr>"

section \<open>Validation of channel options\<close>

lemma Order_Validate_None: "Order_Validate ord = None \<longleftrightarrow> ord = Ordered \<or> ord = Unordered"
  by (simp add: Order_Validate_def)

lemma Invalid_not_valid: "Invalid \<noteq> Ordered \<and> Invalid \<noteq> Unordered"
  by (simp add: Invalid_def Ordered_def Unordered_def)

text \<open>
  Claim C1. For every validator of port identifiers and every value of the options,
  \<open>Validate\<close> returns nil exactly when both port names pass the validator, the
  version is not empty and the ordering is \<open>Ordered\<close> or \<open>Unordered\<close>; with the
  ordering \<open>Invalid\<close> it fails. The error is the one of the first condition violated,
  in the order of the \<open>switch\<close>: the invalid-port error when a port name is refused,
  the version error when both pass and the version is empty, the ordering error when
  only the ordering is wrong.
\<close>

theorem Validate_nil_iff:
  "(Validate pv opts = None \<longleftrightarrow>
      pv (SourcePortName opts) = None \<and> pv (DestPortName opts) = None \<and>
      Version opts \<noteq> [] \<and> (Order opts = Ordered \<or> Order opts = Unordered))
   \<and> Validate pv (opts\<lparr>Order := Invalid\<rparr>) \<noteq> None
   \<and> (Validate pv opts = Some ErrInvalidPort \<longleftrightarrow>
        \<not> (pv (SourcePortName opts) = None \<and> pv (DestPortName opts) = None))
   \<and> (Validate pv opts = Some (Errorf ''invalid channel version'') \<longleftrightarrow>
        pv (SourcePortName opts) = None \<and> pv (DestPortName opts) = None \<and> Version opts = [])
   \<and> (Validate pv opts = Some ErrInvalidChannelOrdering \<longleftrightarrow>
        pv (SourcePortName opts) = None \<and> pv (DestPortName opts) = None \<and> Version opts \<noteq> [] \<and>
        \<not> (Order opts = Ordered \<or> Order opts = Unordered))"
proof -
  have nil: "Validate pv opts = None \<longleftrightarrow>
      pv (SourcePortName opts) = None \<and> pv (DestPortName opts) = None \<and>
      Version opts \<noteq> [] \<and> (Order opts = Ordered \<or> Order opts = Unordered)"
    by (simp add: Validate_def Order_Validate_None)
  have zero: "Validate pv (opts\<lparr>Order := Invalid\<rparr>) \<noteq> None"
    using Invalid_not_valid by (simp add: Validate_def Order_Validate_None)
  have port: "Validate pv opts = Some ErrInvalidPort \<longleftrightarrow>
        \<not> (pv (SourcePortName opts) = None \<and> pv (DestPortName opts) = None)"
    by (simp add: Validate_def)
  have version: "Validate pv opts = Some (Errorf ''invalid channel version'') \<longleftrightarrow>
        pv (SourcePortName opts) = None \<and> pv (DestPortName opts) = None \<and> Version opts = []"
    by (simp add: Validate_def)
  have ordering: "Validate pv opts = Some ErrInvalidChannelOrdering \<longleftrightarrow>
        pv (SourcePortName opts) = None \<and> pv (DestPortName opts) = None \<and> Version opts \<noteq> [] \<and>
        \<not> (Order opts = Ordered \<or> Order opts = Unordered)"
    by (simp add: Validate_def Order_Validate_None)
  from nil zero port version ordering show ?thesis by blast
qed

lemma transfer_is_port: "host_PortIdentifierValidator ''transfer'' = None"
  by (simp add: host_PortIdentifierValidator_def defaultIdentifierValidator_def IsValidID_def)

theorem Validate_nil_iff_witness:
  "Validate host_PortIdentifierValidator
     \<lparr>SourcePortName = ''transfer'', DestPortName = ''a/b'', Order = Ordered, Version = ''ics20-1''\<rparr>
     = Some ErrInvalidPort
   \<and> Validate host_PortIdentifierValidator
     \<lparr>SourcePortName = ''transfer'', DestPortName = ''transfer'', Order = Ordered, Version = ''''\<rparr>
     = Some (Errorf ''invalid channel version'')
   \<and> Validate host_PortIdentifierValidator
     \<lparr>SourcePortName = ''transfer'', DestPortName = ''transfer'', Order = 7, Version = ''ics20-1''\<rparr>
     = Some ErrInvalidChannelOrdering
   \<and> Validate host_PortIdentifierValidator
     \<lparr>SourcePortName = ''transfer'', DestPortName = ''transfer'', Order = Ordered, Version = ''ics20-1''\<rparr>
     = None"
proof -
  have bad: "host_PortIdentifierValidator ''a/b'' \<noteq> None"
    by (simp add: host_PortIdentifierValidator_def defaultIdentifierValidator_def)
  have ord7: "(7::int) \<noteq> Ordered \<and> (7::int) \<noteq> Unordered"
    by (simp add: Ordered_def Unordered_def)
  show ?thesis
    using bad ord7 transfer_is_port
      Validate_nil_iff [of host_PortIdentifierValidator
        "\<lparr>SourcePortName = ''transfer'', DestPortName = ''a/b'', Order = Ordered, Version = ''ics20-1''\<rparr>"]
      Validate_nil_iff [of host_PortIdentifierValidator
        "\<lparr>SourcePortName = ''transfer'', DestPortName = ''transfer'', Order = Ordered, Version = ''''\<rparr>"]
      Validate_nil_iff [of host_PortIdentifierValidator
        "\<lparr>SourcePortName = ''transfer'', DestPortName = ''transfer'', Order = 7, Version = ''ics20-1''\<rparr>"]
      Validate_nil_iff [of host_PortIdentifierValidator
        "\<lparr>SourcePortName = ''transfer'', DestPortName = ''transfer'', Order = Ordered, Version = ''ics20-1''\<rparr>"]
    by simp
qed

text \<open>
  Claim C4. \<open>DefaultChannelOpts\<close> is the options transfer, transfer, \<open>Unordered\<close>,
  ics20-1. \<open>Validate\<close> returns nil on them exactly when the validator of port
  identifiers accepts the name transfer, and the validator of ibc-go does.
\<close>

theorem DefaultChannelOpts_valid:
  "DefaultChannelOpts =
     \<lparr>SourcePortName = ''transfer'', DestPortName = ''transfer'',
      Order = Unordered, Version = ''ics20-1''\<rparr>
   \<and> (Validate pv DefaultChannelOpts = None \<longleftrightarrow> pv ''transfer'' = None)
   \<and> Validate host_PortIdentifierValidator DefaultChannelOpts = None"
  using transfer_is_port
  by (simp add: DefaultChannelOpts_def Validate_def Order_Validate_None)

theorem DefaultChannelOpts_valid_witness:
  "Validate (\<lambda>ident. if ident = ''transfer'' then None else Some ErrInvalidPort) DefaultChannelOpts = None"
  using DefaultChannelOpts_valid [of "\<lambda>ident. if ident = ''transfer'' then None else Some ErrInvalidPort"]
  by simp

section \<open>Wallets\<close>

lemma example_NewDockerRelayer:
  "fst (NewDockerRelayer example_dockerutil example_NewDockerRelayer_world ''TestRelayer'' ''net-1''
     example_commander []) = Inr example_relayer"
  by (simp add: NewDockerRelayer_def pullContainerImageIfNecessary_def example_NewDockerRelayer_world_def
      example_relayer_def Exec_def example_Exec_world_def run_ok_def example_commander_def HomeDir_def
      containerImage_def Let_def)

lemma AddKey_cases:
  "AddKey du r w chainID keyName =
     (let ex = Exec du r w (c_AddKey (c r) chainID keyName (HomeDir r)) [];
          parsed = ParseAddKeyOutput (c r) (Stdout (fst ex)) (Stderr (fst ex))
      in if Err (fst ex) \<noteq> None then ((zero_RelayerWallet, Err (fst ex)), r, snd ex)
         else if snd parsed \<noteq> None then ((zero_RelayerWallet, snd parsed), r, snd ex)
         else ((fst parsed, None), r\<lparr>wallets := (wallets r)(chainID \<mapsto> fst parsed)\<rparr>, snd ex))"
  by (auto simp: AddKey_def Let_def split: prod.splits option.splits)

lemma RestoreKey_cases:
  "RestoreKey du r w chainID keyName mnemonic =
     (let ex = Exec du r w (c_RestoreKey (c r) chainID keyName mnemonic (HomeDir r)) []
      in if Err (fst ex) \<noteq> None then (Err (fst ex), r, snd ex)
         else (None,
               r\<lparr>wallets := (wallets r)(chainID \<mapsto>
                    \<lparr>Mnemonic = mnemonic,
                     Address = ParseRestoreKeyOutput (c r) (Stdout (fst ex)) (Stderr (fst ex))\<rparr>)\<rparr>,
               snd ex))"
  by (auto simp: RestoreKey_def Let_def split: prod.splits option.splits)

text \<open>
  Claim C10. \<open>AddKey\<close> returns an error exactly when the execution returns one (that
  error) or, the execution having succeeded, when \<open>ParseAddKeyOutput\<close> returns one
  (that error). Whenever \<open>AddKey\<close> returns an error it returns the zero wallet with
  it and leaves the relayer, and so its wallets, as they were: \<open>GetWallet\<close> for the
  chain answers as before. \<open>RestoreKey\<close> returns the error of the execution, and when
  it returns one the relayer is as before.
\<close>

theorem AddKey_RestoreKey_atomic:
  "snd (fst (AddKey du r w chainID keyName)) =
     (case Err (fst (Exec du r w (c_AddKey (c r) chainID keyName (HomeDir r)) [])) of
        Some e \<Rightarrow> Some e
      | None \<Rightarrow>
          snd (ParseAddKeyOutput (c r)
                 (Stdout (fst (Exec du r w (c_AddKey (c r) chainID keyName (HomeDir r)) [])))
                 (Stderr (fst (Exec du r w (c_AddKey (c r) chainID keyName (HomeDir r)) [])))))
   \<and> (snd (fst (AddKey du r w chainID keyName)) \<noteq> None \<longrightarrow>
        fst (fst (AddKey du r w chainID keyName)) = zero_RelayerWallet \<and>
        fst (snd (AddKey du r w chainID keyName)) = r \<and>
        GetWallet (fst (snd (AddKey du r w chainID keyName))) chainID = GetWallet r chainID)
   \<and> fst (RestoreKey du r w chainID keyName mnemonic) =
        Err (fst (Exec du r w (c_RestoreKey (c r) chainID keyName mnemonic (HomeDir r)) []))
   \<and> (fst (RestoreKey du r w chainID keyName mnemonic) \<noteq> None \<longrightarrow>
        fst (snd (RestoreKey du r w chainID keyName mnemonic)) = r \<and>
        GetWallet (fst (snd (RestoreKey du r w chainID keyName mnemonic))) chainID = GetWallet r chainID)"
proof -
  have add_err: "snd (fst (AddKey du r w chainID keyName)) =
     (case Err (fst (Exec du r w (c_AddKey (c r) chainID keyName (HomeDir r)) [])) of
        Some e \<Rightarrow> Some e
      | None \<Rightarrow>
          snd (ParseAddKeyOutput (c r)
                 (Stdout (fst (Exec du r w (c_AddKey (c r) chainID keyName (HomeDir r)) [])))
                 (Stderr (fst (Exec du r w (c_AddKey (c r) chainID keyName (HomeDir r)) [])))))"
    by (auto simp: AddKey_cases Let_def split: option.splits)
  have add_same: "snd (fst (AddKey du r w chainID keyName)) \<noteq> None \<longrightarrow>
        fst (fst (AddKey du r w chainID keyName)) = zero_RelayerWallet \<and>
        fst (snd (AddKey du r w chainID keyName)) = r"
    by (auto simp: AddKey_cases Let_def)
  have restore_err: "fst (RestoreKey du r w chainID keyName mnemonic) =
        Err (fst (Exec du r w (c_RestoreKey (c r) chainID keyName mnemonic (HomeDir r)) []))"
    by (auto simp: RestoreKey_cases Let_def)
  have restore_same: "fst (RestoreKey du r w chainID keyName mnemonic) \<noteq> None \<longrightarrow>
        fst (snd (RestoreKey du r w chainID keyName mnemonic)) = r"
    by (auto simp: RestoreKey_cases Let_def)
  from add_err add_same restore_err restore_same show ?thesis
    by simp
qed

theorem AddKey_RestoreKey_atomic_witness:
  "fst (AddKey example_dockerutil example_relayer (example_Exec_world run_failed) ''chain-a'' ''key'')
     = (zero_RelayerWallet, Some (External ''image not found''))
   \<and> fst (snd (AddKey example_dockerutil example_relayer (example_Exec_world run_failed) ''chain-a'' ''key''))
     = example_relayer
   \<and> fst (AddKey example_dockerutil example_relayer (example_Exec_world (run_ok [])) ''chain-a'' ''key'')
     = (zero_RelayerWallet, Some (External ''no address in the output''))
   \<and> fst (snd (AddKey example_dockerutil example_relayer (example_Exec_world (run_ok [])) ''chain-a'' ''key''))
     = example_relayer
   \<and> fst (RestoreKey example_dockerutil example_relayer (example_Exec_world run_failed) ''chain-a'' ''key'' ''word'')
     = Some (External ''image not found'')
   \<and> fst (snd (RestoreKey example_dockerutil example_relayer (example_Exec_world run_failed) ''chain-a'' ''key'' ''word''))
     = example_relayer
   \<and> GetWallet example_relayer ''chain-a'' = (zero_RelayerWallet, False)"
proof -
  have run1: "fst (Exec example_dockerutil example_relayer (example_Exec_world run_failed) cmd env) = run_failed" for cmd env
    by (simp add: Exec_def example_Exec_world_def Let_def)
  have run2: "fst (Exec example_dockerutil example_relayer (example_Exec_world (run_ok [])) cmd env) = run_ok []" for cmd env
    by (simp add: Exec_def example_Exec_world_def Let_def)
  have failed: "Err run_failed = Some (External ''image not found'')"
    by (simp add: run_failed_def)
  have ok: "Err (run_ok []) = None \<and> Stdout (run_ok []) = [] \<and> Stderr (run_ok []) = []"
    by (simp add: run_ok_def)
  have cmdr: "c example_relayer = example_commander"
    by (simp add: example_relayer_def)
  have parse: "ParseAddKeyOutput example_commander [] [] = (zero_RelayerWallet, Some (External ''no address in the output''))"
    by (simp add: example_commander_def)
  note failing = AddKey_RestoreKey_atomic [of example_dockerutil example_relayer
      "example_Exec_world run_failed" "''chain-a''" "''key''" "''word''"]
  note unparsed = AddKey_RestoreKey_atomic [of example_dockerutil example_relayer
      "example_Exec_world (run_ok [])" "''chain-a''" "''key''" "''word''"]
  have add1: "snd (fst (AddKey example_dockerutil example_relayer (example_Exec_world run_failed) ''chain-a'' ''key''))
      = Some (External ''image not found'')"
    using failing run1 failed by simp
  have add1': "fst (fst (AddKey example_dockerutil example_relayer (example_Exec_world run_failed) ''chain-a'' ''key''))
      = zero_RelayerWallet
    \<and> fst (snd (AddKey example_dockerutil example_relayer (example_Exec_world run_failed) ''chain-a'' ''key''))
      = example_relayer"
    using failing add1 by simp
  have add2: "snd (fst (AddKey example_dockerutil example_relayer (example_Exec_world (run_ok [])) ''chain-a'' ''key''))
      = Some (External ''no address in the output'')"
    using unparsed run2 ok cmdr parse by simp
  have add2': "fst (fst (AddKey example_dockerutil example_relayer (example_Exec_world (run_ok [])) ''chain-a'' ''key''))
      = zero_RelayerWallet
    \<and> fst (snd (AddKey example_dockerutil example_relayer (example_Exec_world (run_ok [])) ''chain-a'' ''key''))
      = example_relayer"
    using unparsed add2 by simp
  have restore1: "fst (RestoreKey example_dockerutil example_relayer (example_Exec_world run_failed) ''chain-a'' ''key'' ''word'')
      = Some (External ''image not found'')"
    using failing run1 failed by simp
  have restore1': "fst (snd (RestoreKey example_dockerutil example_relayer (example_Exec_world run_failed) ''chain-a'' ''key'' ''word''))
      = example_relayer"
    using failing restore1 by simp
  have get: "GetWallet example_relayer ''chain-a'' = (zero_RelayerWallet, False)"
    by (simp add: GetWallet_def example_relayer_def)
  from add1 add1' add2 add2' restore1 restore1' get show ?thesis
    by (simp add: prod_eq_iff)
qed

lemma createNodeContainer_wallets: "wallets (fst (snd (createNodeContainer du r w pathName))) = wallets r"
  by (simp add: createNodeContainer_def Let_def split: sum.splits)

lemma after_call_keeps:
  "\<not> key_stored du r call chainID \<Longrightarrow> wallets (after_call du r call) chainID = wallets r chainID"
proof (cases call)
  case (call_AddKey w cid keyName)
  assume "\<not> key_stored du r call chainID"
  with call_AddKey show ?thesis
    by (auto simp: AddKey_cases Let_def)
next
  case (call_RestoreKey w cid keyName mnemonic)
  assume "\<not> key_stored du r call chainID"
  with call_RestoreKey show ?thesis
    by (auto simp: RestoreKey_cases Let_def)
next
  case (call_StartRelayer w pathName)
  then show ?thesis
    by (simp add: StartRelayer_def createNodeContainer_wallets)
qed

lemma after_call_stores:
  "key_stored du r call chainID \<Longrightarrow> wallets (after_call du r call) chainID \<noteq> None"
proof (cases call)
  case (call_AddKey w cid keyName)
  assume "key_stored du r call chainID"
  with call_AddKey show ?thesis
    by (auto simp: AddKey_cases Let_def split: if_splits)
next
  case (call_RestoreKey w cid keyName mnemonic)
  assume "key_stored du r call chainID"
  with call_RestoreKey show ?thesis
    by (auto simp: RestoreKey_cases Let_def split: if_splits)
next
  case (call_StartRelayer w pathName)
  assume "key_stored du r call chainID"
  with call_StartRelayer show ?thesis by simp
qed

lemma after_calls_keeps:
  "no_key_stored du r calls chainID \<Longrightarrow> wallets (after_calls du r calls) chainID = wallets r chainID"
proof (induction calls arbitrary: r)
  case Nil
  then show ?case by simp
next
  case (Cons call calls)
  then show ?case by (simp add: after_call_keeps)
qed

lemma after_calls_grows:
  "wallets r chainID \<noteq> None \<Longrightarrow> wallets (after_calls du r calls) chainID \<noteq> None"
proof (induction calls arbitrary: r)
  case Nil
  then show ?case by simp
next
  case (Cons call calls)
  have "wallets (after_call du r call) chainID \<noteq> None"
  proof (cases "key_stored du r call chainID")
    case True
    then show ?thesis by (rule after_call_stores)
  next
    case False
    then show ?thesis using Cons.prems by (simp add: after_call_keeps)
  qed
  then show ?case using Cons.IH by simp
qed

lemma after_calls_None_iff:
  "wallets (after_calls du r calls) chainID = None \<longleftrightarrow>
     wallets r chainID = None \<and> no_key_stored du r calls chainID"
proof (induction calls arbitrary: r)
  case Nil
  then show ?case by simp
next
  case (Cons call calls)
  show ?case
  proof (cases "key_stored du r call chainID")
    case True
    then have "wallets (after_call du r call) chainID \<noteq> None" by (rule after_call_stores)
    then have "wallets (after_calls du (after_call du r call) calls) chainID \<noteq> None"
      by (rule after_calls_grows)
    with True show ?thesis by simp
  next
    case False
    then show ?thesis using Cons.IH [of "after_call du r call"] by (simp add: after_call_keeps)
  qed
qed

lemma foldl_option_wallets: "wallets (foldl apply_RelayerOption r options) = wallets r"
proof (induction options arbitrary: r)
  case Nil
  then show ?case by simp
next
  case (Cons opt options)
  then show ?case by (cases opt) simp_all
qed

lemma NewDockerRelayer_wallets:
  "fst (NewDockerRelayer du w tName netID cmdr options) = Inr r \<Longrightarrow> wallets r = Map.empty"
  by (auto simp: NewDockerRelayer_def Let_def foldl_option_wallets
      split: prod.splits option.splits sum.splits if_splits)

lemma GetWallet_not_found_iff:
  "GetWallet r chainID = (zero_RelayerWallet, False) \<longleftrightarrow> wallets r chainID = None"
  by (simp add: GetWallet_def split: option.splits)

text \<open>
  Claim C5. Take a relayer as \<open>NewDockerRelayer\<close> returns it and any history of calls
  on it. \<open>GetWallet\<close> for a chain returns the zero wallet with found false exactly
  when no \<open>AddKey\<close> or \<open>RestoreKey\<close> of the history for that chain returned without
  error, and found is true exactly when one did. On any relayer, after an \<open>AddKey\<close>
  without error \<open>GetWallet\<close> returns the wallet \<open>AddKey\<close> returned, with found
  true; after a \<open>RestoreKey\<close> without error it returns the wallet of the mnemonic and
  the parsed address, with found true; and later calls that store no key for the chain
  leave the answer as it is.
\<close>

theorem GetWallet_found_iff_key_stored:
  assumes "fst (NewDockerRelayer du w0 tName netID cmdr options) = Inr r0"
  shows "(GetWallet (after_calls du r0 calls) chainID = (zero_RelayerWallet, False) \<longleftrightarrow>
            no_key_stored du r0 calls chainID)
       \<and> (snd (GetWallet (after_calls du r0 calls) chainID) \<longleftrightarrow> \<not> no_key_stored du r0 calls chainID)
       \<and> (snd (fst (AddKey du r w chainID keyName)) = None \<longrightarrow>
            GetWallet (fst (snd (AddKey du r w chainID keyName))) chainID =
              (fst (fst (AddKey du r w chainID keyName)), True))
       \<and> (fst (RestoreKey du r w chainID keyName mnemonic) = None \<longrightarrow>
            GetWallet (fst (snd (RestoreKey du r w chainID keyName mnemonic))) chainID =
              (\<lparr>Mnemonic = mnemonic,
                Address = ParseRestoreKeyOutput (c r)
                  (Stdout (fst (Exec du r w (c_RestoreKey (c r) chainID keyName mnemonic (HomeDir r)) [])))
                  (Stderr (fst (Exec du r w (c_RestoreKey (c r) chainID keyName mnemonic (HomeDir r)) [])))\<rparr>,
               True))
       \<and> (no_key_stored du r later chainID \<longrightarrow>
            GetWallet (after_calls du r later) chainID = GetWallet r chainID)"
proof -
  from assms have empty: "wallets r0 chainID = None"
    by (simp add: NewDockerRelayer_wallets)
  have not_found: "GetWallet (after_calls du r0 calls) chainID = (zero_RelayerWallet, False) \<longleftrightarrow>
            no_key_stored du r0 calls chainID"
    using empty by (simp add: GetWallet_not_found_iff after_calls_None_iff)
  have found: "snd (GetWallet (after_calls du r0 calls) chainID) \<longleftrightarrow> \<not> no_key_stored du r0 calls chainID"
    using empty after_calls_None_iff [of du r0 calls chainID]
    by (auto simp: GetWallet_def split: option.splits)
  have added: "snd (fst (AddKey du r w chainID keyName)) = None \<longrightarrow>
            GetWallet (fst (snd (AddKey du r w chainID keyName))) chainID =
              (fst (fst (AddKey du r w chainID keyName)), True)"
    by (auto simp: AddKey_cases GetWallet_def Let_def)
  have restored: "fst (RestoreKey du r w chainID keyName mnemonic) = None \<longrightarrow>
            GetWallet (fst (snd (RestoreKey du r w chainID keyName mnemonic))) chainID =
              (\<lparr>Mnemonic = mnemonic,
                Address = ParseRestoreKeyOutput (c r)
                  (Stdout (fst (Exec du r w (c_RestoreKey (c r) chainID keyName mnemonic (HomeDir r)) [])))
                  (Stderr (fst (Exec du r w (c_RestoreKey (c r) chainID keyName mnemonic (HomeDir r)) [])))\<rparr>,
               True)"
    by (auto simp: RestoreKey_cases GetWallet_def Let_def)
  have kept: "no_key_stored du r later chainID \<longrightarrow>
            GetWallet (after_calls du r later) chainID = GetWallet r chainID"
    by (simp add: GetWallet_def after_calls_keeps)
  from not_found found added restored kept show ?thesis by blast
qed

theorem GetWallet_found_iff_key_stored_witness:
  "GetWallet
     (after_calls example_dockerutil example_relayer
        [call_AddKey (example_Exec_world run_failed) ''chain-a'' ''key'',
         call_StartRelayer \<lparr>node_ContainerCreate_result = Inr ''c1'', StartContainer_result = None\<rparr> ''path'',
         call_RestoreKey (example_Exec_world (run_ok ''addr-b'')) ''chain-b'' ''key'' ''word''])
     ''chain-a'' = (zero_RelayerWallet, False)
   \<and> GetWallet
       (fst (snd (RestoreKey example_dockerutil example_relayer (example_Exec_world (run_ok ''addr-b''))
                    ''chain-b'' ''key'' ''word'')))
       ''chain-b'' = (\<lparr>Mnemonic = ''word'', Address = ''addr-b''\<rparr>, True)"
proof -
  have run1: "fst (Exec example_dockerutil r (example_Exec_world res) cmd env) = res" for r res cmd env
    by (simp add: Exec_def example_Exec_world_def Let_def)
  have failed: "Err run_failed \<noteq> None"
    by (simp add: run_failed_def)
  have ok: "Err (run_ok ''addr-b'') = None \<and> Stdout (run_ok ''addr-b'') = ''addr-b''"
    by (simp add: run_ok_def)
  have cmdr: "ParseRestoreKeyOutput (c example_relayer) out errout = out" for out errout
    by (simp add: example_relayer_def example_commander_def)
  have add_failed: "snd (fst (AddKey example_dockerutil r (example_Exec_world run_failed) ''chain-a'' ''key'')) \<noteq> None" for r
    using failed by (simp add: AddKey_cases Let_def run1)
  have none: "no_key_stored example_dockerutil example_relayer
        [call_AddKey (example_Exec_world run_failed) ''chain-a'' ''key'',
         call_StartRelayer \<lparr>node_ContainerCreate_result = Inr ''c1'', StartContainer_result = None\<rparr> ''path'',
         call_RestoreKey (example_Exec_world (run_ok ''addr-b'')) ''chain-b'' ''key'' ''word'']
        ''chain-a''"
    using add_failed by simp
  have restored: "fst (RestoreKey example_dockerutil example_relayer (example_Exec_world (run_ok ''addr-b''))
                    ''chain-b'' ''key'' ''word'') = None"
    using ok by (simp add: RestoreKey_cases Let_def run1)
  note inst = GetWallet_found_iff_key_stored [OF example_NewDockerRelayer,
      where r = example_relayer and w = "example_Exec_world (run_ok ''addr-b'')"
        and keyName = "''key''" and mnemonic = "''word''"]
  show ?thesis
    using inst [where chainID = "''chain-a''" and calls =
        "[call_AddKey (example_Exec_world run_failed) ''chain-a'' ''key'',
          call_StartRelayer \<lparr>node_ContainerCreate_result = Inr ''c1'', StartContainer_result = None\<rparr> ''path'',
          call_RestoreKey (example_Exec_world (run_ok ''addr-b'')) ''chain-b'' ''key'' ''word'']"]
      inst [where chainID = "''chain-b''"] none restored run1 ok cmdr
    by simp
qed

section \<open>The configuration archive\<close>

lemma HasSuffix_config: "\<not> HasSuffix (chainID @ ''.config'') ''/''"
  by (simp add: HasSuffix_def)

lemma generateConfigTar_file:
  assumes "\<not> HasSuffix path ''/''"
  shows "generateConfigTar encodable now r path content =
     (case encodable \<lparr>Typeflag = TypeReg, Header_Name = path, Size = int (length content),
                      Mode = mode_0600, Uname = DockerUser (c r), ModTime = now, Format = FormatPAX\<rparr> of
        Some e \<Rightarrow> Inl (Wrapf ''writing config file to tar'' e)
      | None \<Rightarrow>
          Inr [(\<lparr>Typeflag = TypeReg, Header_Name = path, Size = int (length content),
                 Mode = mode_0600, Uname = DockerUser (c r), ModTime = now, Format = FormatPAX\<rparr>,
                content)])"
  using assms
  by (simp add: generateConfigTar_def tar_NewWriter_def tar_WriteHeader_def tar_Write_def
      tar_Close_def Let_def split: option.splits)

lemma generateConfigTar_any_path:
  assumes "encodable \<lparr>Typeflag = (if HasSuffix path ''/'' then TypeDir else TypeReg),
                      Header_Name = path, Size = int (length content), Mode = mode_0600,
                      Uname = DockerUser (c r), ModTime = now, Format = FormatPAX\<rparr> = None"
    and "HasSuffix path ''/'' \<longrightarrow> content = []"
  shows "generateConfigTar encodable now r path content =
     Inr [(\<lparr>Typeflag = (if HasSuffix path ''/'' then TypeDir else TypeReg),
            Header_Name = path, Size = int (length content), Mode = mode_0600,
            Uname = DockerUser (c r), ModTime = now, Format = FormatPAX\<rparr>,
           content)]"
  using assms
  by (auto simp: generateConfigTar_def tar_NewWriter_def tar_WriteHeader_def tar_Write_def
      tar_Close_def Let_def split: if_splits)

text \<open>
  Claim C6. \<open>AddChainConfiguration\<close>, the only caller, passes the path
  \<open>ChainID.config\<close>. For every such path and every content, \<open>generateConfigTar\<close>
  returns an archive of exactly one member, whose header has the given path as its name,
  the mode \<open>0600\<close> (384), the commander's Docker user as owner name and the length of
  the content as size, and whose bytes are the content, when the tar writer encodes the
  header; when it does not, \<open>generateConfigTar\<close> returns the writer's error, wrapped.
  The same archive results for every other path and content with an encodable header,
  a path that ends in a slash (a directory, which takes no bytes) going with the empty
  content.
\<close>

theorem generateConfigTar_single_member:
  "generateConfigTar encodable now r (chainID @ ''.config'') content =
     (case encodable \<lparr>Typeflag = TypeReg, Header_Name = chainID @ ''.config'', Size = int (length content),
                      Mode = mode_0600, Uname = DockerUser (c r), ModTime = now, Format = FormatPAX\<rparr> of
        Some e \<Rightarrow> Inl (Wrapf ''writing config file to tar'' e)
      | None \<Rightarrow>
          Inr [(\<lparr>Typeflag = TypeReg, Header_Name = chainID @ ''.config'', Size = int (length content),
                 Mode = mode_0600, Uname = DockerUser (c r), ModTime = now, Format = FormatPAX\<rparr>,
                content)])
   \<and> (encodable \<lparr>Typeflag = (if HasSuffix path ''/'' then TypeDir else TypeReg),
                   Header_Name = path, Size = int (length content), Mode = mode_0600,
                   Uname = DockerUser (c r), ModTime = now, Format = FormatPAX\<rparr> = None \<and>
       (HasSuffix path ''/'' \<longrightarrow> content = []) \<longrightarrow>
         (\<exists>hdr. generateConfigTar encodable now r path content = Inr [(hdr, content)] \<and>
                Header_Name hdr = path \<and> Mode hdr = mode_0600 \<and>
                Uname hdr = DockerUser (c r) \<and> Size hdr = int (length content) \<and>
                ModTime hdr = now \<and> Format hdr = FormatPAX))
   \<and> mode_0600 = 384"
proof -
  have config: "generateConfigTar encodable now r (chainID @ ''.config'') content =
     (case encodable \<lparr>Typeflag = TypeReg, Header_Name = chainID @ ''.config'', Size = int (length content),
                      Mode = mode_0600, Uname = DockerUser (c r), ModTime = now, Format = FormatPAX\<rparr> of
        Some e \<Rightarrow> Inl (Wrapf ''writing config file to tar'' e)
      | None \<Rightarrow>
          Inr [(\<lparr>Typeflag = TypeReg, Header_Name = chainID @ ''.config'', Size = int (length content),
                 Mode = mode_0600, Uname = DockerUser (c r), ModTime = now, Format = FormatPAX\<rparr>,
                content)])"
    by (rule generateConfigTar_file [OF HasSuffix_config])
  have any: "encodable \<lparr>Typeflag = (if HasSuffix path ''/'' then TypeDir else TypeReg),
                   Header_Name = path, Size = int (length content), Mode = mode_0600,
                   Uname = DockerUser (c r), ModTime = now, Format = FormatPAX\<rparr> = None \<and>
       (HasSuffix path ''/'' \<longrightarrow> content = []) \<longrightarrow>
         (\<exists>hdr. generateConfigTar encodable now r path content = Inr [(hdr, content)] \<and>
                Header_Name hdr = path \<and> Mode hdr = mode_0600 \<and>
                Uname hdr = DockerUser (c r) \<and> Size hdr = int (length content) \<and>
                ModTime hdr = now \<and> Format hdr = FormatPAX)"
    using generateConfigTar_any_path [of encodable path content r now] by simp
  have mode: "mode_0600 = 384"
    by (simp add: mode_0600_def)
  from config any mode show ?thesis by blast
qed

theorem generateConfigTar_single_member_witness:
  "generateConfigTar (\<lambda>hdr. None) 1000 example_relayer ''chain-a.config'' ''{}'' = Inr example_archive
   \<and> generateConfigTar (\<lambda>hdr. Some (External ''archive/tar: cannot encode header''))
        1000 example_relayer ''chain-a.config'' ''{}''
      = Inl (Wrapf ''writing config file to tar'' (External ''archive/tar: cannot encode header''))
   \<and> (\<exists>hdr. generateConfigTar (\<lambda>hdr. None) 1000 example_relayer ''conf/'' [] = Inr [(hdr, [])] \<and>
             Header_Name hdr = ''conf/'' \<and> Size hdr = 0)"
proof -
  have dir: "HasSuffix ''conf/'' ''/''"
    by (simp add: HasSuffix_def)
  have user: "DockerUser (c example_relayer) = ''100:1000''"
    by (simp add: example_relayer_def example_commander_def)
  have accepted: "generateConfigTar (\<lambda>hdr. None) 1000 example_relayer ''chain-a.config'' ''{}'' = Inr example_archive"
    using user
      generateConfigTar_single_member [of "\<lambda>hdr. None" 1000 example_relayer "''chain-a''" "''{}''" "''conf/''"]
    by (simp add: example_archive_def)
  have refused: "generateConfigTar (\<lambda>hdr. Some (External ''archive/tar: cannot encode header''))
        1000 example_relayer ''chain-a.config'' ''{}''
      = Inl (Wrapf ''writing config file to tar'' (External ''archive/tar: cannot encode header''))"
    using generateConfigTar_single_member [of
        "\<lambda>hdr. Some (External ''archive/tar: cannot encode header'')" 1000 example_relayer "''chain-a''" "''{}''" "''conf/''"]
    by simp
  have empty_dir: "\<exists>hdr. generateConfigTar (\<lambda>hdr. None) 1000 example_relayer ''conf/'' [] = Inr [(hdr, [])] \<and>
             Header_Name hdr = ''conf/'' \<and> Size hdr = 0"
    using dir generateConfigTar_single_member [of "\<lambda>hdr. None" 1000 example_relayer "''chain-a''" "[]" "''conf/''"]
    by auto
  from accepted refused empty_dir show ?thesis by blast
qed

text \<open>
  No caller passes a path that ends in a slash together with content. Such a path names
  a directory, the writer takes no bytes for it, and \<open>generateConfigTar\<close> would return
  the error of \<open>Write\<close>.
\<close>

lemma generateConfigTar_directory_path:
  "generateConfigTar (\<lambda>hdr. None) 1000 example_relayer ''conf/'' ''x''
     = Inl (Wrapf ''writing config content to tar'' (External ''archive/tar: write too long''))"
  by (simp add: generateConfigTar_def tar_NewWriter_def tar_WriteHeader_def tar_Write_def
      HasSuffix_def Let_def)

section \<open>One-off containers: order of the calls and cancellation\<close>

lemma runOneOff_calls_cases:
  "snd (runOneOff du r w k opts) =
     (let containerName = Name du r @ ''-'' @ ContainerNameDetail opts @ ''-'' @ RandLowerCaseLetterString w;
          create = ContainerCreate
                     \<lparr>Image = Ref du (containerImage r),
                      Config_Entrypoint = Entrypoint opts,
                      Config_Cmd = Cmd opts,
                      Hostname = HostName du r containerName,
                      Config_User = User opts,
                      Labels = [(CleanupLabel du, testName r)]\<rparr>
                     \<lparr>HostConfig_Binds = Bind r, AutoRemove = False\<rparr>
                     None
                     containerName
      in case ContainerCreate_result w of
           Inl e \<Rightarrow> [create]
         | Inr ccID \<Rightarrow>
             (case TarContent opts of
                None \<Rightarrow>
                  (if ContainerStart_result w \<noteq> None
                   then [create, ContainerStart ccID, ContainerRemove ccID True False]
                   else [create, ContainerStart ccID, ContainerWait ccID, ContainerRemove ccID True False])
              | Some tar \<Rightarrow>
                  (if CopyToContainer_result w \<noteq> None
                   then [create, CopyToContainer ccID (HomeDir r) tar, ContainerRemove ccID True False]
                   else if ContainerStart_result w \<noteq> None
                   then [create, CopyToContainer ccID (HomeDir r) tar, ContainerStart ccID,
                         ContainerRemove ccID True False]
                   else [create, CopyToContainer ccID (HomeDir r) tar, ContainerStart ccID,
                         ContainerWait ccID, ContainerRemove ccID True False])))"
  by (auto simp: runOneOff_def Let_def split: sum.splits option.splits select_choice.splits)

text \<open>
  The archive that \<open>AddChainConfiguration\<close> copies into the one-off container is the
  one \<open>generateConfigTar\<close> built for the file \<open>ChainID.config\<close> and the content the
  commander generated, and it is copied into the home directory.
\<close>

lemma runOneOff_copied:
  "CopyToContainer ccID dstPath tar \<in> set (snd (runOneOff du r w k opts)) \<Longrightarrow>
   dstPath = HomeDir r \<and> TarContent opts = Some tar"
  by (auto simp: runOneOff_calls_cases Let_def split: sum.splits option.splits if_splits)

lemma AddChainConfiguration_calls:
  "snd (snd (AddChainConfiguration du r w chainConfig keyName rpcAddr grpcAddr)) = [] \<or>
   (\<exists>tar. generateConfigTar (tar_encodable w) (tar_Now w) r (ChainID chainConfig @ ''.config'')
            (fst (ConfigContent (c r) chainConfig keyName rpcAddr grpcAddr)) = Inr tar \<and>
          snd (snd (AddChainConfiguration du r w chainConfig keyName rpcAddr grpcAddr)) =
          snd (runOneOff du r (untar_world w) (untar_select w)
                 \<lparr>ContainerNameDetail = ''untar-chown'', Entrypoint = [],
                  Cmd = [''chown'', ''-R'', DockerUser (c r), HomeDir r],
                  User = GetRootUserString du, TarContent = Some tar\<rparr>))"
  by (auto simp: AddChainConfiguration_def untarIntoNodeHome_def Let_def
      split: prod.splits option.splits sum.splits)

lemma AddChainConfiguration_copies_config:
  assumes "CopyToContainer ccID dstPath tar
             \<in> set (snd (snd (AddChainConfiguration du r w chainConfig keyName rpcAddr grpcAddr)))"
  shows "dstPath = HomeDir r \<and>
         generateConfigTar (tar_encodable w) (tar_Now w) r (ChainID chainConfig @ ''.config'')
           (fst (ConfigContent (c r) chainConfig keyName rpcAddr grpcAddr)) = Inr tar"
proof -
  from AddChainConfiguration_calls [of du r w chainConfig keyName rpcAddr grpcAddr] assms
  obtain tar' where tar': "generateConfigTar (tar_encodable w) (tar_Now w) r (ChainID chainConfig @ ''.config'')
            (fst (ConfigContent (c r) chainConfig keyName rpcAddr grpcAddr)) = Inr tar'"
    and calls: "snd (snd (AddChainConfiguration du r w chainConfig keyName rpcAddr grpcAddr)) =
          snd (runOneOff du r (untar_world w) (untar_select w)
                 \<lparr>ContainerNameDetail = ''untar-chown'', Entrypoint = [],
                  Cmd = [''chown'', ''-R'', DockerUser (c r), HomeDir r],
                  User = GetRootUserString du, TarContent = Some tar'\<rparr>)"
    by auto
  from assms calls have "dstPath = HomeDir r \<and> Some tar' = Some tar"
    using runOneOff_copied [of ccID dstPath tar du r "untar_world w" "untar_select w"
        "\<lparr>ContainerNameDetail = ''untar-chown'', Entrypoint = [],
                  Cmd = [''chown'', ''-R'', DockerUser (c r), HomeDir r],
                  User = GetRootUserString du, TarContent = Some tar'\<rparr>"]
    by simp
  with tar' show ?thesis by simp
qed

text \<open>
  Claim C7. When the options of \<open>runOneOff\<close> carry an archive, every
  \<open>ContainerStart\<close> among the calls made comes after the \<open>CopyToContainer\<close> of that
  archive into the home directory of the same container, and that copy returned without
  error; when the copy returns an error no \<open>ContainerStart\<close> is made at all. Once
  the container is created the copy is the second call, right after the creation.
\<close>

theorem runOneOff_copy_before_start:
  assumes "TarContent opts = Some tar"
  shows "(\<forall>j < length (snd (runOneOff du r w k opts)). \<forall>ccID.
            snd (runOneOff du r w k opts) ! j = ContainerStart ccID \<longrightarrow>
              CopyToContainer_result w = None \<and>
              (\<exists>i < j. snd (runOneOff du r w k opts) ! i = CopyToContainer ccID (HomeDir r) tar))
       \<and> (CopyToContainer_result w \<noteq> None \<longrightarrow>
            (\<forall>ccID. ContainerStart ccID \<notin> set (snd (runOneOff du r w k opts))))
       \<and> (\<forall>ccID. ContainerCreate_result w = Inr ccID \<longrightarrow>
            snd (runOneOff du r w k opts) ! 1 = CopyToContainer ccID (HomeDir r) tar)"
proof -
  have started: "CopyToContainer_result w = None \<and>
              (\<exists>i < j. snd (runOneOff du r w k opts) ! i = CopyToContainer ccID (HomeDir r) tar)"
    if "j < length (snd (runOneOff du r w k opts))"
      and "snd (runOneOff du r w k opts) ! j = ContainerStart ccID" for j ccID
    using that assms
    by (auto simp: runOneOff_calls_cases Let_def nth_Cons less_Suc_eq_0_disj
        split: sum.splits if_splits nat.splits)
  have never: "CopyToContainer_result w \<noteq> None \<longrightarrow>
            (\<forall>ccID. ContainerStart ccID \<notin> set (snd (runOneOff du r w k opts)))"
    using assms by (auto simp: runOneOff_calls_cases Let_def split: sum.splits)
  have second: "\<forall>ccID. ContainerCreate_result w = Inr ccID \<longrightarrow>
            snd (runOneOff du r w k opts) ! 1 = CopyToContainer ccID (HomeDir r) tar"
    using assms by (auto simp: runOneOff_calls_cases Let_def)
  from started never second show ?thesis by blast
qed


theorem runOneOff_copy_before_start_witness:
  "snd (runOneOff example_dockerutil example_relayer
          (example_runOneOff_world None False None (Some None)) (from_waitCh None) example_oneOffOptions) ! 2
     = ContainerStart ''c1''
   \<and> (\<exists>i < 2. snd (runOneOff example_dockerutil example_relayer
          (example_runOneOff_world None False None (Some None)) (from_waitCh None) example_oneOffOptions) ! i
        = CopyToContainer ''c1'' (HomeDir example_relayer) example_archive)
   \<and> ContainerStart ''c1'' \<notin> set (snd (runOneOff example_dockerutil example_relayer
          (example_runOneOff_world (Some (External ''no such container'')) False None (Some None))
          (from_waitCh None) example_oneOffOptions))"
proof -
  have tar: "TarContent example_oneOffOptions = Some example_archive"
    by (simp add: example_oneOffOptions_def)
  have calls: "snd (runOneOff example_dockerutil example_relayer
          (example_runOneOff_world None False None (Some None)) (from_waitCh None) example_oneOffOptions) ! 2
     = ContainerStart ''c1''
     \<and> 2 < length (snd (runOneOff example_dockerutil example_relayer
          (example_runOneOff_world None False None (Some None)) (from_waitCh None) example_oneOffOptions))"
    by (simp add: runOneOff_def example_runOneOff_world_def example_oneOffOptions_def Let_def)
  have failing: "CopyToContainer_result (example_runOneOff_world (Some (External ''no such container'')) False None (Some None)) \<noteq> None"
    by (simp add: example_runOneOff_world_def)
  show ?thesis
    using calls failing
      runOneOff_copy_before_start [OF tar, of example_dockerutil example_relayer
        "example_runOneOff_world None False None (Some None)" "from_waitCh None"]
      runOneOff_copy_before_start [OF tar, of example_dockerutil example_relayer
        "example_runOneOff_world (Some (External ''no such container'')) False None (Some None)" "from_waitCh None"]
    by blast
qed

text \<open>
  Claim C8, amended. The container is created and started, \<open>runOneOff\<close> has called
  \<open>ContainerWait\<close> and stands at its \<open>select\<close> statement, and the context is done.
  Then the statement can proceed, so \<open>runOneOff\<close> does not block for the container;
  when it takes the case of \<open>ctx.Done()\<close> it returns \<open>ctx.Err()\<close>, and that is the
  only case when neither \<open>errCh\<close> nor \<open>waitCh\<close> holds a value. When one of them
  holds a value the statement may take that case instead, and \<open>runOneOff\<close> returns the
  error received on \<open>errCh\<close> or the result of the wait.
\<close>

theorem runOneOff_canceled_while_waiting:
  assumes "ContainerCreate_result w = Inr ccID"
    and "TarContent opts = None \<or> CopyToContainer_result w = None"
    and "ContainerStart_result w = None"
    and "ctx_Done w"
  shows "select_case w from_ctx_Done
       \<and> fst (runOneOff du r w from_ctx_Done opts) = Some (ctx_Err w)
       \<and> ContainerWait ccID \<in> set (snd (runOneOff du r w from_ctx_Done opts))
       \<and> (errCh w = None \<and> waitCh w = None \<longrightarrow>
            (\<forall>k. select_case w k \<longrightarrow> fst (runOneOff du r w k opts) = Some (ctx_Err w)))
       \<and> (\<forall>k. select_case w k \<longrightarrow>
            (k = from_ctx_Done \<and> fst (runOneOff du r w k opts) = Some (ctx_Err w)) \<or>
            (\<exists>e. errCh w = Some e \<and> k = from_errCh e \<and> fst (runOneOff du r w k opts) = e) \<or>
            (\<exists>res. waitCh w = Some res \<and> k = from_waitCh res \<and>
                   fst (runOneOff du r w k opts) =
                     (case res of
                        None \<Rightarrow> None
                      | Some msg \<Rightarrow>
                          Some (Errorf (''waiting for one-off '' @ ContainerNameDetail opts @
                                        '' container: '' @ msg)))))"
proof -
  have ready: "select_case w from_ctx_Done"
    using assms(4) by (rule take_ctx_Done)
  have result: "fst (runOneOff du r w from_ctx_Done opts) = Some (ctx_Err w)"
    using assms(1,2,3) by (auto simp: runOneOff_def Let_def split: option.splits)
  have waited: "ContainerWait ccID \<in> set (snd (runOneOff du r w from_ctx_Done opts))"
    using assms(1,2,3) by (auto simp: runOneOff_def Let_def split: option.splits)
  have from_err: "fst (runOneOff du r w (from_errCh e) opts) = e" for e
    using assms(1,2,3) by (auto simp: runOneOff_def Let_def split: option.splits)
  have from_wait: "fst (runOneOff du r w (from_waitCh res) opts) =
                     (case res of
                        None \<Rightarrow> None
                      | Some msg \<Rightarrow>
                          Some (Errorf (''waiting for one-off '' @ ContainerNameDetail opts @
                                        '' container: '' @ msg)))" for res
    using assms(1,2,3) by (auto simp: runOneOff_def Let_def split: option.splits)
  have cases: "(k = from_ctx_Done \<and> fst (runOneOff du r w k opts) = Some (ctx_Err w)) \<or>
            (\<exists>e. errCh w = Some e \<and> k = from_errCh e \<and> fst (runOneOff du r w k opts) = e) \<or>
            (\<exists>res. waitCh w = Some res \<and> k = from_waitCh res \<and>
                   fst (runOneOff du r w k opts) =
                     (case res of
                        None \<Rightarrow> None
                      | Some msg \<Rightarrow>
                          Some (Errorf (''waiting for one-off '' @ ContainerNameDetail opts @
                                        '' container: '' @ msg))))"
    if "select_case w k" for k
    using that
  proof (cases rule: select_case.cases)
    case take_ctx_Done
    with result show ?thesis by simp
  next
    case (take_errCh e)
    with from_err show ?thesis by simp
  next
    case (take_waitCh res)
    with from_wait show ?thesis by simp
  qed
  have only: "errCh w = None \<and> waitCh w = None \<longrightarrow>
            (\<forall>k. select_case w k \<longrightarrow> fst (runOneOff du r w k opts) = Some (ctx_Err w))"
    using cases by fastforce
  from ready result waited only cases show ?thesis by blast
qed

theorem runOneOff_canceled_while_waiting_witness:
  "select_case (example_runOneOff_world None True None None) from_ctx_Done
   \<and> fst (runOneOff example_dockerutil example_relayer (example_runOneOff_world None True None None)
            from_ctx_Done example_oneOffOptions) = Some Canceled"
proof -
  have w: "ContainerCreate_result (example_runOneOff_world None True None None) = Inr ''c1''
      \<and> CopyToContainer_result (example_runOneOff_world None True None None) = None
      \<and> ContainerStart_result (example_runOneOff_world None True None None) = None
      \<and> ctx_Done (example_runOneOff_world None True None None)
      \<and> ctx_Err (example_runOneOff_world None True None None) = Canceled"
    by (simp add: example_runOneOff_world_def)
  show ?thesis
    using w runOneOff_canceled_while_waiting [of "example_runOneOff_world None True None None" "''c1''"
        example_oneOffOptions example_dockerutil example_relayer]
    by simp
qed

text \<open>
  The call \<open>ContainerWait\<close> is given the same context, so a cancellation can also put
  the client's error on \<open>errCh\<close>. With the context done and that error waiting, the
  \<open>select\<close> statement may take the case of \<open>errCh\<close>, and \<open>runOneOff\<close> then returns
  the client's error and not \<open>ctx.Err()\<close>.
\<close>

theorem runOneOff_canceled_race:
  "ctx_Done (example_runOneOff_world None True
               (Some (Some (External ''error during connect: context canceled''))) None)
   \<and> select_case (example_runOneOff_world None True
               (Some (Some (External ''error during connect: context canceled''))) None)
        (from_errCh (Some (External ''error during connect: context canceled'')))
   \<and> fst (runOneOff example_dockerutil example_relayer
            (example_runOneOff_world None True
               (Some (Some (External ''error during connect: context canceled''))) None)
            (from_errCh (Some (External ''error during connect: context canceled'')))
            example_oneOffOptions)
       = Some (External ''error during connect: context canceled'')
   \<and> fst (runOneOff example_dockerutil example_relayer
            (example_runOneOff_world None True
               (Some (Some (External ''error during connect: context canceled''))) None)
            (from_errCh (Some (External ''error during connect: context canceled'')))
            example_oneOffOptions)
       \<noteq> Some (ctx_Err (example_runOneOff_world None True
               (Some (Some (External ''error during connect: context canceled''))) None))"
proof -
  have is_done: "ctx_Done (example_runOneOff_world None True
               (Some (Some (External ''error during connect: context canceled''))) None)"
    by (simp add: example_runOneOff_world_def)
  have waiting: "errCh (example_runOneOff_world None True
               (Some (Some (External ''error during connect: context canceled''))) None)
       = Some (Some (External ''error during connect: context canceled''))"
    by (simp add: example_runOneOff_world_def)
  have taken: "select_case (example_runOneOff_world None True
               (Some (Some (External ''error during connect: context canceled''))) None)
        (from_errCh (Some (External ''error during connect: context canceled'')))"
    using waiting by (rule take_errCh)
  have returned: "fst (runOneOff example_dockerutil example_relayer
            (example_runOneOff_world None True
               (Some (Some (External ''error during connect: context canceled''))) None)
            (from_errCh (Some (External ''error during connect: context canceled'')))
            example_oneOffOptions)
       = Some (External ''error during connect: context canceled'')"
    by (simp add: runOneOff_def Let_def example_runOneOff_world_def example_oneOffOptions_def)
  have other: "ctx_Err (example_runOneOff_world None True
               (Some (Some (External ''error during connect: context canceled''))) None) = Canceled"
    by (simp add: example_runOneOff_world_def)
  from is_done taken returned other show ?thesis by simp
qed

section \<open>The cleanup label\<close>

lemma foldl_option_testName: "testName (foldl apply_RelayerOption r options) = testName r"
proof (induction options arbitrary: r)
  case Nil
  then show ?case by simp
next
  case (Cons opt options)
  then show ?case by (cases opt) simp_all
qed

lemma NewDockerRelayer_testName:
  "fst (NewDockerRelayer du w tName netID cmdr options) = Inr r \<Longrightarrow> testName r = tName"
  by (auto simp: NewDockerRelayer_def Let_def foldl_option_testName
      split: prod.splits option.splits sum.splits if_splits)

lemma NewDockerRelayer_calls:
  "call \<in> set (snd (NewDockerRelayer du w tName netID cmdr options)) \<Longrightarrow>
   creates_resource call \<Longrightarrow> call = VolumeCreate [(CleanupLabel du, tName)]"
  by (auto simp: NewDockerRelayer_def pullContainerImageIfNecessary_def Let_def
      split: prod.splits option.splits sum.splits if_splits)

lemma NewDockerRelayer_volume:
  "fst (NewDockerRelayer du w tName netID cmdr options) = Inr r \<Longrightarrow>
   VolumeCreate [(CleanupLabel du, tName)] \<in> set (snd (NewDockerRelayer du w tName netID cmdr options))"
  by (auto simp: NewDockerRelayer_def pullContainerImageIfNecessary_def Let_def
      split: prod.splits option.splits sum.splits if_splits)

lemma createNodeContainer_calls:
  "call \<in> set (snd (snd (createNodeContainer du r w pathName))) \<Longrightarrow>
   creates_resource call \<Longrightarrow> cleanup_labelled du (testName r) call"
  by (auto simp: createNodeContainer_def Let_def split: sum.splits)

lemma createNodeContainer_first:
  "creates_resource (hd (snd (snd (createNodeContainer du r w pathName))))"
  by (auto simp: createNodeContainer_def Let_def split: sum.splits)

lemma runOneOff_calls:
  "call \<in> set (snd (runOneOff du r w k opts)) \<Longrightarrow>
   creates_resource call \<Longrightarrow> cleanup_labelled du (testName r) call"
  by (auto simp: runOneOff_calls_cases Let_def split: sum.splits option.splits if_splits)

lemma runOneOff_first:
  "creates_resource (hd (snd (runOneOff du r w k opts)))"
  by (auto simp: runOneOff_calls_cases Let_def split: sum.splits option.splits if_splits)

text \<open>
  Claim C9. Every call that creates a volume or a container, among the calls of
  \<open>NewDockerRelayer\<close>, of \<open>createNodeContainer\<close> and of \<open>runOneOff\<close>, gives it the
  cleanup label with the test name as value: the test name passed to the constructor,
  which is the test name of the relayer it returns, and the test name of the relayer for
  the two others. A constructor that returns a relayer has created its volume, and
  \<open>createNodeContainer\<close> and \<open>runOneOff\<close> start by creating their container.
\<close>

theorem created_resources_carry_cleanup_label:
  "(\<forall>call \<in> set (snd (NewDockerRelayer du w0 tName netID cmdr options)).
      creates_resource call \<longrightarrow> cleanup_labelled du tName call)
   \<and> (\<forall>r0. fst (NewDockerRelayer du w0 tName netID cmdr options) = Inr r0 \<longrightarrow>
        testName r0 = tName \<and>
        VolumeCreate [(CleanupLabel du, tName)] \<in> set (snd (NewDockerRelayer du w0 tName netID cmdr options)))
   \<and> (\<forall>call \<in> set (snd (snd (createNodeContainer du r w1 pathName))).
        creates_resource call \<longrightarrow> cleanup_labelled du (testName r) call)
   \<and> creates_resource (hd (snd (snd (createNodeContainer du r w1 pathName))))
   \<and> (\<forall>call \<in> set (snd (runOneOff du r w2 k opts)).
        creates_resource call \<longrightarrow> cleanup_labelled du (testName r) call)
   \<and> creates_resource (hd (snd (runOneOff du r w2 k opts)))"
proof -
  have volume: "\<forall>call \<in> set (snd (NewDockerRelayer du w0 tName netID cmdr options)).
      creates_resource call \<longrightarrow> cleanup_labelled du tName call"
    using NewDockerRelayer_calls [of _ du w0 tName netID cmdr options] by fastforce
  have made: "\<forall>r0. fst (NewDockerRelayer du w0 tName netID cmdr options) = Inr r0 \<longrightarrow>
        testName r0 = tName \<and>
        VolumeCreate [(CleanupLabel du, tName)] \<in> set (snd (NewDockerRelayer du w0 tName netID cmdr options))"
    using NewDockerRelayer_testName NewDockerRelayer_volume by blast
  have node: "\<forall>call \<in> set (snd (snd (createNodeContainer du r w1 pathName))).
        creates_resource call \<longrightarrow> cleanup_labelled du (testName r) call"
    using createNodeContainer_calls by blast
  have oneoff: "\<forall>call \<in> set (snd (runOneOff du r w2 k opts)).
        creates_resource call \<longrightarrow> cleanup_labelled du (testName r) call"
    using runOneOff_calls by blast
  from volume made node oneoff createNodeContainer_first runOneOff_first show ?thesis
    by blast
qed

theorem created_resources_carry_cleanup_label_witness:
  "cleanup_labelled example_dockerutil ''TestRelayer'' (VolumeCreate [(''ibc-test'', ''TestRelayer'')])
   \<and> VolumeCreate [(''ibc-test'', ''TestRelayer'')]
        \<in> set (snd (NewDockerRelayer example_dockerutil example_NewDockerRelayer_world ''TestRelayer'' ''net-1''
                       example_commander []))
   \<and> cleanup_labelled example_dockerutil ''TestRelayer''
        (hd (snd (snd (createNodeContainer example_dockerutil example_relayer
                         example_createNodeContainer_world ''path''))))
   \<and> cleanup_labelled example_dockerutil ''TestRelayer''
        (hd (snd (runOneOff example_dockerutil example_relayer
                    (example_runOneOff_world None False None (Some None)) (from_waitCh None)
                    example_oneOffOptions)))"
proof -
  have made: "fst (NewDockerRelayer example_dockerutil example_NewDockerRelayer_world ''TestRelayer'' ''net-1''
     example_commander []) = Inr example_relayer"
    by (simp add: NewDockerRelayer_def pullContainerImageIfNecessary_def example_NewDockerRelayer_world_def
      example_relayer_def Exec_def example_Exec_world_def run_ok_def example_commander_def HomeDir_def
      containerImage_def Let_def)
  have label: "CleanupLabel example_dockerutil = ''ibc-test'' \<and> testName example_relayer = ''TestRelayer''"
    by (simp add: example_dockerutil_def example_relayer_def)
  have node: "hd (snd (snd (createNodeContainer example_dockerutil example_relayer
                         example_createNodeContainer_world ''path'')))
      \<in> set (snd (snd (createNodeContainer example_dockerutil example_relayer
                         example_createNodeContainer_world ''path'')))"
    by (simp add: createNodeContainer_def Let_def example_createNodeContainer_world_def)
  have oneoff: "hd (snd (runOneOff example_dockerutil example_relayer
                    (example_runOneOff_world None False None (Some None)) (from_waitCh None)
                    example_oneOffOptions))
      \<in> set (snd (runOneOff example_dockerutil example_relayer
                    (example_runOneOff_world None False None (Some None)) (from_waitCh None)
                    example_oneOffOptions))"
    by (simp add: runOneOff_def Let_def example_runOneOff_world_def example_oneOffOptions_def)
  note inst = created_resources_carry_cleanup_label [of example_dockerutil example_NewDockerRelayer_world
      "''TestRelayer''" "''net-1''" example_commander "[]" example_relayer
      example_createNodeContainer_world "''path''"
      "example_runOneOff_world None False None (Some None)" "from_waitCh None" example_oneOffOptions]
  have vol_in: "VolumeCreate [(''ibc-test'', ''TestRelayer'')]
        \<in> set (snd (NewDockerRelayer example_dockerutil example_NewDockerRelayer_world ''TestRelayer'' ''net-1''
                       example_commander []))"
    using inst made label by simp
  have vol: "cleanup_labelled example_dockerutil ''TestRelayer'' (VolumeCreate [(''ibc-test'', ''TestRelayer'')])"
    using inst vol_in by fastforce
  have node_l: "cleanup_labelled example_dockerutil ''TestRelayer''
        (hd (snd (snd (createNodeContainer example_dockerutil example_relayer
                         example_createNodeContainer_world ''path''))))"
    using inst node label by simp
  have oneoff_l: "cleanup_labelled example_dockerutil ''TestRelayer''
        (hd (snd (runOneOff example_dockerutil example_relayer
                    (example_runOneOff_world None False None (Some None)) (from_waitCh None)
                    example_oneOffOptions)))"
    using inst oneoff label by simp
  from vol vol_in node_l oneoff_l show ?thesis by simp
qed

section \<open>Reports to the execution reporter\<close>

lemma StopRelayer_nil:
  assumes "fst (StopRelayer r w) = None"
  shows "\<exists>rc out errout cj.
           ContainerLogs_result w = Inr rc \<and> StdCopy w rc = Inr (out, errout) \<and>
           ContainerInspect_result w = Inr cj \<and>
           fst (snd (StopRelayer r w)) =
             [\<lparr>containerName = ContainerJSON_Name cj,
               command = Args cj,
               stdout = out, stderr = errout,
               exitCode = State_ExitCode (State cj),
               startedAt = (case time_Parse w (StartedAt (State cj)) RFC3339Nano of
                              Inl e \<Rightarrow> time_Unix 0 0 | Inr t \<Rightarrow> t),
               finishedAt = (case time_Parse w (FinishedAt (State cj)) RFC3339Nano of
                               Inl e \<Rightarrow> UTC (time_Now w) | Inr t \<Rightarrow> t),
               err = None\<rparr>]"
  using assms
  by (auto simp: StopRelayer_def stopContainer_def Let_def split: option.splits sum.splits prod.splits)

lemma StopRelayer_reports:
  "fst (snd (StopRelayer r w)) = [] \<or>
   (\<exists>rc out errout cj.
           ContainerLogs_result w = Inr rc \<and> StdCopy w rc = Inr (out, errout) \<and>
           ContainerInspect_result w = Inr cj \<and>
           fst (snd (StopRelayer r w)) =
             [\<lparr>containerName = ContainerJSON_Name cj,
               command = Args cj,
               stdout = out, stderr = errout,
               exitCode = State_ExitCode (State cj),
               startedAt = (case time_Parse w (StartedAt (State cj)) RFC3339Nano of
                              Inl e \<Rightarrow> time_Unix 0 0 | Inr t \<Rightarrow> t),
               finishedAt = (case time_Parse w (FinishedAt (State cj)) RFC3339Nano of
                               Inl e \<Rightarrow> UTC (time_Now w) | Inr t \<Rightarrow> t),
               err = None\<rparr>])"
  by (auto simp: StopRelayer_def stopContainer_def Let_def split: option.splits sum.splits prod.splits)

lemma in_order_start_le_finish:
  assumes "timestamps_in_order w cj"
  shows "(case time_Parse w (StartedAt (State cj)) RFC3339Nano of
            Inl e \<Rightarrow> time_Unix 0 0 | Inr t \<Rightarrow> t)
       \<le> (case time_Parse w (FinishedAt (State cj)) RFC3339Nano of
            Inl e \<Rightarrow> UTC (time_Now w) | Inr t \<Rightarrow> t)"
  using assms by (auto simp: timestamps_in_order_def UTC_def split: sum.splits)

text \<open>
  Claim C2. \<open>Exec\<close> calls the reporter exactly once, whatever the run returns, with
  the error of the run and the two readings of the clock. A \<open>StopRelayer\<close> that
  returns without error has called the reporter exactly once, with the report made from
  the inspected container and the demultiplexed logs. In the report of \<open>Exec\<close> the
  start is not after the end when the clock does not run backwards between the two
  readings; in the report of \<open>StopRelayer\<close> it is not when the timestamps are in order
  (\<open>timestamps_in_order\<close>: a clock not before the epoch, recorded times between the
  epoch and the present, the start not after the finish).
\<close>

theorem reporter_called_exactly_once:
  "(\<exists>rep. snd (Exec du r w cmd env) = [rep] \<and>
          containerName rep = Name du r \<and> command rep = cmd \<and>
          err rep = Err (fst (Exec du r w cmd env)) \<and>
          startedAt rep = Now_before_Run w \<and> finishedAt rep = Now_at_return w)
   \<and> (Now_before_Run w \<le> Now_at_return w \<longrightarrow>
        (\<forall>rep \<in> set (snd (Exec du r w cmd env)). startedAt rep \<le> finishedAt rep))
   \<and> (fst (StopRelayer r sw) = None \<longrightarrow>
        (\<exists>rc out errout cj.
           ContainerLogs_result sw = Inr rc \<and> StdCopy sw rc = Inr (out, errout) \<and>
           ContainerInspect_result sw = Inr cj \<and>
           fst (snd (StopRelayer r sw)) =
             [\<lparr>containerName = ContainerJSON_Name cj,
               command = Args cj,
               stdout = out, stderr = errout,
               exitCode = State_ExitCode (State cj),
               startedAt = (case time_Parse sw (StartedAt (State cj)) RFC3339Nano of
                              Inl e \<Rightarrow> time_Unix 0 0 | Inr t \<Rightarrow> t),
               finishedAt = (case time_Parse sw (FinishedAt (State cj)) RFC3339Nano of
                               Inl e \<Rightarrow> UTC (time_Now sw) | Inr t \<Rightarrow> t),
               err = None\<rparr>]))
   \<and> ((\<forall>cj. ContainerInspect_result sw = Inr cj \<longrightarrow> timestamps_in_order sw cj) \<longrightarrow>
        (\<forall>rep \<in> set (fst (snd (StopRelayer r sw))). startedAt rep \<le> finishedAt rep))"
proof -
  have once: "\<exists>rep. snd (Exec du r w cmd env) = [rep] \<and>
          containerName rep = Name du r \<and> command rep = cmd \<and>
          err rep = Err (fst (Exec du r w cmd env)) \<and>
          startedAt rep = Now_before_Run w \<and> finishedAt rep = Now_at_return w"
    by (simp add: Exec_def Let_def)
  have exec_times: "Now_before_Run w \<le> Now_at_return w \<longrightarrow>
        (\<forall>rep \<in> set (snd (Exec du r w cmd env)). startedAt rep \<le> finishedAt rep)"
    by (simp add: Exec_def Let_def)
  have stop_once: "fst (StopRelayer r sw) = None \<longrightarrow>
        (\<exists>rc out errout cj.
           ContainerLogs_result sw = Inr rc \<and> StdCopy sw rc = Inr (out, errout) \<and>
           ContainerInspect_result sw = Inr cj \<and>
           fst (snd (StopRelayer r sw)) =
             [\<lparr>containerName = ContainerJSON_Name cj,
               command = Args cj,
               stdout = out, stderr = errout,
               exitCode = State_ExitCode (State cj),
               startedAt = (case time_Parse sw (StartedAt (State cj)) RFC3339Nano of
                              Inl e \<Rightarrow> time_Unix 0 0 | Inr t \<Rightarrow> t),
               finishedAt = (case time_Parse sw (FinishedAt (State cj)) RFC3339Nano of
                               Inl e \<Rightarrow> UTC (time_Now sw) | Inr t \<Rightarrow> t),
               err = None\<rparr>])"
    using StopRelayer_nil by blast
  have stop_times: "(\<forall>cj. ContainerInspect_result sw = Inr cj \<longrightarrow> timestamps_in_order sw cj) \<longrightarrow>
        (\<forall>rep \<in> set (fst (snd (StopRelayer r sw))). startedAt rep \<le> finishedAt rep)"
  proof (intro impI ballI)
    fix rep
    assume sane: "\<forall>cj. ContainerInspect_result sw = Inr cj \<longrightarrow> timestamps_in_order sw cj"
      and mem: "rep \<in> set (fst (snd (StopRelayer r sw)))"
    from StopRelayer_reports [of r sw] mem obtain cj out errout where
      cj: "ContainerInspect_result sw = Inr cj"
      and rep: "fst (snd (StopRelayer r sw)) =
             [\<lparr>containerName = ContainerJSON_Name cj,
               command = Args cj,
               stdout = out, stderr = errout,
               exitCode = State_ExitCode (State cj),
               startedAt = (case time_Parse sw (StartedAt (State cj)) RFC3339Nano of
                              Inl e \<Rightarrow> time_Unix 0 0 | Inr t \<Rightarrow> t),
               finishedAt = (case time_Parse sw (FinishedAt (State cj)) RFC3339Nano of
                               Inl e \<Rightarrow> UTC (time_Now sw) | Inr t \<Rightarrow> t),
               err = None\<rparr>]"
      by auto
    from sane cj have "timestamps_in_order sw cj" by blast
    then have "(case time_Parse sw (StartedAt (State cj)) RFC3339Nano of
            Inl e \<Rightarrow> time_Unix 0 0 | Inr t \<Rightarrow> t)
       \<le> (case time_Parse sw (FinishedAt (State cj)) RFC3339Nano of
            Inl e \<Rightarrow> UTC (time_Now sw) | Inr t \<Rightarrow> t)"
      by (rule in_order_start_le_finish)
    with rep mem show "startedAt rep \<le> finishedAt rep" by simp
  qed
  from once exec_times stop_once stop_times show ?thesis by blast
qed

lemma example_parse_swapped:
  "time_Parse example_StopRelayer_world ''2022-09-01T10:00:00Z'' RFC3339Nano
     = Inl (External ''parsing time: cannot parse'')
   \<and> time_Parse example_StopRelayer_world ''2022-09-01T11:00:00Z'' RFC3339Nano
     = Inl (External ''parsing time: cannot parse'')"
  by (simp add: example_StopRelayer_world_def example_time_Parse_def RFC3339Nano_def)

lemma example_StopRelayer_report:
  "StopRelayer (example_relayer\<lparr>containerID := ''c2''\<rparr>) example_StopRelayer_world =
     (None,
      [\<lparr>containerName = ''/rly-path'',
        command = [''start'', ''path'', ''--home'', ''/var/relayer-rly''],
        stdout = ''relaying'', stderr = [],
        exitCode = 0,
        startedAt = 0,
        finishedAt = 1662030005000000000,
        err = None\<rparr>],
      [ContainerStop ''c2'', ContainerLogs ''c2'', ContainerInspect ''c2'',
       ContainerRemove ''c2'' False True])"
  using example_parse_swapped
  by (simp add: StopRelayer_def stopContainer_def Let_def example_StopRelayer_world_def
      example_ContainerJSON_def time_Unix_def UTC_def)

theorem reporter_called_exactly_once_witness:
  "snd (Exec example_dockerutil example_relayer (example_Exec_world (run_ok ''ok'')) [''rly'', ''version''] [])
     = [\<lparr>containerName = ''rly-TestRelayer'', command = [''rly'', ''version''],
         stdout = ''ok'', stderr = [], exitCode = 0,
         startedAt = 1000, finishedAt = 2000, err = None\<rparr>]
   \<and> snd (Exec example_dockerutil example_relayer (example_Exec_world run_failed) [''rly'', ''version''] [])
     = [\<lparr>containerName = ''rly-TestRelayer'', command = [''rly'', ''version''],
         stdout = [], stderr = [], exitCode = -1,
         startedAt = 1000, finishedAt = 2000, err = Some (External ''image not found'')\<rparr>]
   \<and> list_all (\<lambda>rep. startedAt rep \<le> finishedAt rep)
        (snd (Exec example_dockerutil example_relayer (example_Exec_world run_failed) [''rly'', ''version''] []))
   \<and> length (fst (snd (StopRelayer (example_relayer\<lparr>containerID := ''c2''\<rparr>) example_StopRelayer_world))) = 1
   \<and> list_all (\<lambda>rep. startedAt rep \<le> finishedAt rep)
        (fst (snd (StopRelayer (example_relayer\<lparr>containerID := ''c2''\<rparr>) example_StopRelayer_world)))"
proof -
  have exec_ok: "snd (Exec example_dockerutil example_relayer (example_Exec_world (run_ok ''ok'')) [''rly'', ''version''] [])
     = [\<lparr>containerName = ''rly-TestRelayer'', command = [''rly'', ''version''],
         stdout = ''ok'', stderr = [], exitCode = 0,
         startedAt = 1000, finishedAt = 2000, err = None\<rparr>]"
    by (simp add: Exec_def Let_def example_Exec_world_def run_ok_def Name_def example_relayer_def
        example_commander_def example_dockerutil_def)
  have exec_failed: "snd (Exec example_dockerutil example_relayer (example_Exec_world run_failed) [''rly'', ''version''] [])
     = [\<lparr>containerName = ''rly-TestRelayer'', command = [''rly'', ''version''],
         stdout = [], stderr = [], exitCode = -1,
         startedAt = 1000, finishedAt = 2000, err = Some (External ''image not found'')\<rparr>]"
    by (simp add: Exec_def Let_def example_Exec_world_def run_failed_def Name_def example_relayer_def
        example_commander_def example_dockerutil_def)
  have clock: "Now_before_Run (example_Exec_world run_failed) \<le> Now_at_return (example_Exec_world run_failed)"
    by (simp add: example_Exec_world_def)
  have stopped: "fst (StopRelayer (example_relayer\<lparr>containerID := ''c2''\<rparr>) example_StopRelayer_world) = None"
    by (simp add: example_StopRelayer_report)
  have sane: "\<forall>cj. ContainerInspect_result example_StopRelayer_world = Inr cj \<longrightarrow>
      timestamps_in_order example_StopRelayer_world cj"
    using example_parse_swapped
    by (simp add: timestamps_in_order_def example_StopRelayer_world_def example_ContainerJSON_def
        time_Unix_def)
  note exec_inst = reporter_called_exactly_once [where du = example_dockerutil and r = example_relayer
      and w = "example_Exec_world run_failed" and cmd = "[''rly'', ''version'']" and env = "[]"]
  note stop_inst = reporter_called_exactly_once [where du = example_dockerutil
      and r = "example_relayer\<lparr>containerID := ''c2''\<rparr>"
      and w = "example_Exec_world run_failed" and cmd = "[]" and env = "[]"
      and sw = example_StopRelayer_world]
  have exec_times: "list_all (\<lambda>rep. startedAt rep \<le> finishedAt rep)
        (snd (Exec example_dockerutil example_relayer (example_Exec_world run_failed) [''rly'', ''version''] []))"
    using exec_inst clock by (simp add: list_all_iff)
  have stop_once: "length (fst (snd (StopRelayer (example_relayer\<lparr>containerID := ''c2''\<rparr>) example_StopRelayer_world))) = 1"
    using stop_inst stopped by fastforce
  have stop_times: "list_all (\<lambda>rep. startedAt rep \<le> finishedAt rep)
        (fst (snd (StopRelayer (example_relayer\<lparr>containerID := ''c2''\<rparr>) example_StopRelayer_world)))"
    using stop_inst sane by (simp add: list_all_iff)
  from exec_ok exec_failed exec_times stop_once stop_times show ?thesis by simp
qed

text \<open>
  Whether \<open>StopRelayer\<close> returns an error does not depend on what \<open>time.Parse\<close>
  answers: a timestamp that fails to parse never makes it fail.
\<close>

lemma StopRelayer_error_whatever_parse:
  "fst (StopRelayer r (w\<lparr>time_Parse := parse\<rparr>)) = fst (StopRelayer r w)"
  by (simp add: StopRelayer_def stopContainer_def Let_def split: option.splits sum.splits prod.splits)

text \<open>
  Claim C3, at a container whose recorded timestamps are valid for the layout
  \<open>RFC3339Nano\<close>. \<open>StopRelayer\<close> gives \<open>time.Parse\<close> the recorded timestamp in the
  place of the layout and \<open>RFC3339Nano\<close> in the place of the value, so parsing fails,
  and the report carries the Unix epoch as start and the present as end, neither of them
  the recorded time. \<open>StopRelayer\<close> itself returns without error.
\<close>

theorem StopRelayer_drops_recorded_timestamps:
  "time_Parse example_StopRelayer_world RFC3339Nano (StartedAt (State example_ContainerJSON))
     = Inr 1662026400000000000
   \<and> time_Parse example_StopRelayer_world RFC3339Nano (FinishedAt (State example_ContainerJSON))
     = Inr 1662030000000000000
   \<and> fst (StopRelayer (example_relayer\<lparr>containerID := ''c2''\<rparr>) example_StopRelayer_world) = None
   \<and> map startedAt (fst (snd (StopRelayer (example_relayer\<lparr>containerID := ''c2''\<rparr>) example_StopRelayer_world)))
     = [time_Unix 0 0]
   \<and> map finishedAt (fst (snd (StopRelayer (example_relayer\<lparr>containerID := ''c2''\<rparr>) example_StopRelayer_world)))
     = [UTC (time_Now example_StopRelayer_world)]
   \<and> time_Unix 0 0 \<noteq> 1662026400000000000
   \<and> UTC (time_Now example_StopRelayer_world) \<noteq> 1662030000000000000"
proof -
  have valid: "time_Parse example_StopRelayer_world RFC3339Nano (StartedAt (State example_ContainerJSON))
     = Inr 1662026400000000000
   \<and> time_Parse example_StopRelayer_world RFC3339Nano (FinishedAt (State example_ContainerJSON))
     = Inr 1662030000000000000"
    by (simp add: example_StopRelayer_world_def example_time_Parse_def example_ContainerJSON_def)
  have sentinels: "time_Unix 0 0 = 0 \<and> UTC (time_Now example_StopRelayer_world) = 1662030005000000000"
    by (simp add: time_Unix_def UTC_def example_StopRelayer_world_def)
  from valid sentinels show ?thesis
    by (simp add: example_StopRelayer_report)
qed

end
